theory Spec2Isabelle
  imports Complex_Main "HOL-Library.Char_ord" "HOL-Library.List_Lexorder"
begin

section \<open>Values, errors and rows\<close>

text \<open>
  The services raise plain JavaScript \<open>Error\<close> objects that differ only in their message.
  The constructor records the class of the error taxonomy a raising site belongs to, the
  argument is the message of the source. \<open>EngineError\<close> is a failure of the SQL engine
  itself (a missing table, a violated constraint).
\<close>

datatype error =
    ValidationError string
  | NotFoundError string
  | ConstraintError string
  | EngineError string

fun message :: "error \<Rightarrow> string" where
  "message (ValidationError m) = m"
| "message (NotFoundError m) = m"
| "message (ConstraintError m) = m"
| "message (EngineError m) = m"

text \<open>
  A JavaScript value as the amount checks see it. Numbers are exact rationals: the
  rounding of IEEE doubles is not part of the model. \<open>JNaN\<close> is the number that is
  falsy and compares false with everything.
\<close>

datatype jsval = JUndefined | JNull | JBool bool | JNum rat | JNaN | JStr string

fun truthy :: "jsval \<Rightarrow> bool" where
  "truthy JUndefined = False"
| "truthy JNull = False"
| "truthy (JBool b) = b"
| "truthy (JNum r) = (r \<noteq> 0)"
| "truthy JNaN = False"
| "truthy (JStr s) = (s \<noteq> [])"

fun is_number :: "jsval \<Rightarrow> bool" where
  "is_number (JNum r) = True"
| "is_number JNaN = True"
| "is_number v = False"

text \<open>\<open>v <= 0\<close> for a value whose \<open>typeof\<close> is \<open>number\<close>.\<close>

fun le_zero :: "jsval \<Rightarrow> bool" where
  "le_zero (JNum r) = (r \<le> 0)"
| "le_zero v = False"

text \<open>
  An optional string field: \<open>None\<close> is \<open>undefined\<close> or \<open>null\<close>. The empty string is
  falsy too, so \<open>x || y\<close> on strings takes \<open>y\<close> for both.
\<close>

fun truthy_str :: "string option \<Rightarrow> bool" where
  "truthy_str None = False"
| "truthy_str (Some s) = (s \<noteq> [])"

definition or_str :: "string option \<Rightarrow> string \<Rightarrow> string" where
  "or_str x d = (if truthy_str x then the x else d)"

definition or_null :: "string option \<Rightarrow> string option" where
  "or_null x = (if truthy_str x then x else None)"

text \<open>An optional numeric id: \<open>0\<close> is falsy, \<open>id || null\<close> maps it to \<open>null\<close>.\<close>

fun truthy_id :: "int option \<Rightarrow> bool" where
  "truthy_id None = False"
| "truthy_id (Some i) = (i \<noteq> 0)"

definition id_or_null :: "int option \<Rightarrow> int option" where
  "id_or_null x = (if truthy_id x then x else None)"

subsection \<open>Strings\<close>

definition is_space :: "char \<Rightarrow> bool" where
  "is_space c = (c \<in> set [CHR 0x09, CHR 0x0A, CHR 0x0B, CHR 0x0C, CHR 0x0D, CHR '' ''])"

definition is_digit :: "char \<Rightarrow> bool" where
  "is_digit c = (CHR ''0'' \<le> c \<and> c \<le> CHR ''9'')"

text \<open>\<open>String.prototype.trim\<close>, on the ASCII white space.\<close>

definition trim :: "string \<Rightarrow> string" where
  "trim s = rev (dropWhile is_space (rev (dropWhile is_space s)))"

text \<open>\<open>String.prototype.includes\<close>: some suffix of the string starts with the pattern.\<close>

definition str_includes :: "string \<Rightarrow> string \<Rightarrow> bool" where
  "str_includes s pat = list_ex (\<lambda>i. take (length pat) (drop i s) = pat) [0..<Suc (length s)]"

text \<open>A text between double quotes, as the messages of the source print it.\<close>

definition quoted :: "string \<Rightarrow> string" where
  "quoted s = CHR 0x22 # s @ [CHR 0x22]"

text \<open>The regular expression \<open>/^\d{4}-\d{2}-\d{2}$/\<close>.\<close>

definition is_date_format :: "string \<Rightarrow> bool" where
  "is_date_format s =
     (length s = 10 \<and> list_all is_digit (take 4 s) \<and> s ! 4 = CHR ''-''
      \<and> list_all is_digit (take 2 (drop 5 s)) \<and> s ! 7 = CHR ''-''
      \<and> list_all is_digit (drop 8 s))"

text \<open>The decimal text of a number in a template literal, for integers.\<close>

fun string_of_nat :: "nat \<Rightarrow> string" where
  "string_of_nat n =
     (if n < 10 then [''0123456789'' ! n]
      else string_of_nat (n div 10) @ [''0123456789'' ! (n mod 10)])"

declare string_of_nat.simps [simp del]

definition string_of_int :: "int \<Rightarrow> string" where
  "string_of_int i = (if i < 0 then CHR ''-'' # string_of_nat (nat (- i)) else string_of_nat (nat i))"

definition digit_value :: "char \<Rightarrow> nat" where
  "digit_value c = of_char c - 48"

definition digits_value :: "string \<Rightarrow> nat" where
  "digits_value ds = foldl (\<lambda>acc c. 10 * acc + digit_value c) 0 ds"

text \<open>
  \<open>parseInt(str, 10)\<close>: leading white space and one sign are skipped, the longest run of
  digits is read, and no digit at all gives \<open>NaN\<close> (\<open>None\<close>).
\<close>

definition parseInt :: "string \<Rightarrow> int option" where
  "parseInt str =
     (let s1 = dropWhile is_space str;
          neg = (s1 \<noteq> [] \<and> hd s1 = CHR ''-'');
          s2 = (if s1 \<noteq> [] \<and> (hd s1 = CHR ''-'' \<or> hd s1 = CHR ''+'') then tl s1 else s1);
          ds = takeWhile is_digit s2
      in if ds = [] then None
         else Some (if neg then - int (digits_value ds) else int (digits_value ds)))"

text \<open>\<open>new Date().toISOString().split('T')[0]\<close> on the time stamp \<open>now\<close>.\<close>

definition today :: "string \<Rightarrow> string" where
  "today now = takeWhile (\<lambda>c. c \<noteq> CHR ''T'') now"

subsection \<open>Rows and the database\<close>

record category =
  c_id :: int
  c_name :: string
  c_icon :: "string option"
  c_color :: "string option"
  c_is_default :: int
  c_created_at :: string

record transaction =
  t_id :: int
  t_amount :: rat
  t_description :: string
  t_date :: string
  t_type :: string
  t_category_id :: "int option"
  t_is_manually_set :: int
  t_source :: "string option"
  t_raw_data :: "string option"
  t_created_at :: string
  t_updated_at :: string

record budget =
  b_id :: int
  b_category_id :: int
  b_amount :: rat
  b_period :: string
  b_start_date :: string
  b_end_date :: "string option"
  b_created_at :: string
  b_updated_at :: string

record setting =
  s_key :: string
  s_value :: string
  s_updated_at :: string

text \<open>
  The state of \<open>init.js\<close> and of the database file behind it: \<open>db_open\<close> is the module
  variable \<open>db\<close> being set, \<open>executed\<close> counts the statements handed to the engine,
  \<open>tables\<close> and \<open>indexes\<close> are the schema, the four row lists are the tables' contents
  and the three \<open>seq\<close> fields are the AUTOINCREMENT counters.
\<close>

record database =
  db_open :: bool
  executed :: nat
  tables :: "string list"
  indexes :: "string list"
  categories :: "category list"
  transactions :: "transaction list"
  budgets :: "budget list"
  settings :: "setting list"
  seq_categories :: int
  seq_transactions :: int
  seq_budgets :: int

definition fresh_database :: database where
  "fresh_database =
     \<lparr>db_open = False, executed = 0, tables = [], indexes = [], categories = [],
      transactions = [], budgets = [], settings = [], seq_categories = 0,
      seq_transactions = 0, seq_budgets = 0\<rparr>"

section \<open>init.js: the connection\<close>

definition DATABASE_VERSION :: int where
  "DATABASE_VERSION = 1"

type_synonym 'a io = "database \<Rightarrow> (error + 'a) \<times> database"

definition ret :: "'a \<Rightarrow> 'a io" where
  "ret a s = (Inr a, s)"

definition throw :: "error \<Rightarrow> 'a io" where
  "throw e s = (Inl e, s)"

text \<open>\<open>await m\<close> followed by the rest of the function: a rejection skips the rest.\<close>

definition then_do :: "'a io \<Rightarrow> ('a \<Rightarrow> 'b io) \<Rightarrow> 'b io" where
  "then_do m f s = (case m s of (Inl e, s') \<Rightarrow> (Inl e, s') | (Inr a, s') \<Rightarrow> f a s')"

definition openDatabase :: "unit io" where
  "openDatabase s = (Inr (), s\<lparr>db_open := True\<rparr>)"

text \<open>
  \<open>executeSql\<close>: the connection is opened if it is not, the statement is handed to the
  engine, and the engine fails when a table the statement reads or writes is missing.
  \<open>needs\<close> lists those tables, \<open>stmt\<close> is what the statement does when they exist.
\<close>

definition executeSql :: "string list \<Rightarrow> 'a io \<Rightarrow> 'a io" where
  "executeSql needs stmt s =
     (let s1 = s\<lparr>db_open := True, executed := Suc (executed s)\<rparr>
      in case find (\<lambda>t. t \<notin> set (tables s1)) needs of
           Some t \<Rightarrow> (Inl (EngineError (''no such table: '' @ t)), s1)
         | None \<Rightarrow> stmt s1)"

section \<open>migrations.js\<close>

definition clear_table :: "string \<Rightarrow> database \<Rightarrow> database" where
  "clear_table name s =
     (if name = ''categories'' then s\<lparr>categories := [], seq_categories := 0\<rparr>
      else if name = ''transactions'' then s\<lparr>transactions := [], seq_transactions := 0\<rparr>
      else if name = ''budgets'' then s\<lparr>budgets := [], seq_budgets := 0\<rparr>
      else if name = ''settings'' then s\<lparr>settings := []\<rparr>
      else s)"

text \<open>\<open>CREATE TABLE IF NOT EXISTS name\<close>: an existing table is left as it is.\<close>

definition create_table :: "string \<Rightarrow> unit io" where
  "create_table name =
     executeSql []
       (\<lambda>s. (Inr (), if name \<in> set (tables s) then s
                      else clear_table name (s\<lparr>tables := tables s @ [name]\<rparr>)))"

text \<open>\<open>CREATE INDEX IF NOT EXISTS name ON tbl(...)\<close>.\<close>

definition create_index :: "string \<Rightarrow> string \<Rightarrow> unit io" where
  "create_index name tbl =
     executeSql [tbl]
       (\<lambda>s. (Inr (), if name \<in> set (indexes s) then s else s\<lparr>indexes := indexes s @ [name]\<rparr>))"

definition createTables :: "unit io" where
  "createTables =
     then_do (create_table ''categories'') (\<lambda>_.
     then_do (create_table ''transactions'') (\<lambda>_.
     then_do (create_table ''budgets'') (\<lambda>_.
     create_table ''settings'')))"

definition createIndexes :: "unit io" where
  "createIndexes =
     then_do (create_index ''idx_transactions_date'' ''transactions'') (\<lambda>_.
     then_do (create_index ''idx_transactions_category'' ''transactions'') (\<lambda>_.
     then_do (create_index ''idx_transactions_type'' ''transactions'') (\<lambda>_.
     create_index ''idx_budgets_category'' ''budgets'')))"

text \<open>\<open>SELECT value FROM settings WHERE key = ?\<close>.\<close>

definition select_setting_values :: "string \<Rightarrow> (string list) io" where
  "select_setting_values key =
     executeSql [''settings'']
       (\<lambda>s. (Inr (map s_value (filter (\<lambda>r. s_key r = key) (settings s))), s))"

text \<open>\<open>INSERT OR REPLACE INTO settings (key, value, updated_at) VALUES (?, ?, ?)\<close>.\<close>

definition replace_setting :: "string \<Rightarrow> string \<Rightarrow> string \<Rightarrow> unit io" where
  "replace_setting key val now =
     executeSql [''settings'']
       (\<lambda>s. (Inr (), s\<lparr>settings := filter (\<lambda>r. s_key r \<noteq> key) (settings s)
                                   @ [\<lparr>s_key = key, s_value = val, s_updated_at = now\<rparr>]\<rparr>))"

text \<open>
  The version is a JavaScript number: \<open>None\<close> is \<open>NaN\<close>. Any failure of the query
  (the settings table does not exist yet) is caught and read as version 0.
\<close>

definition getDatabaseVersion :: "(int option) io" where
  "getDatabaseVersion s =
     (case select_setting_values ''db_version'' s of
        (Inl e, s') \<Rightarrow> (Inr (Some 0), s')
      | (Inr rows, s') \<Rightarrow>
          (case rows of [] \<Rightarrow> (Inr (Some 0), s') | v # _ \<Rightarrow> (Inr (parseInt v), s')))"

definition setDatabaseVersion :: "string \<Rightarrow> int \<Rightarrow> unit io" where
  "setDatabaseVersion now version = replace_setting ''db_version'' (string_of_int version) now"

definition isFirstLaunch :: "bool io" where
  "isFirstLaunch s =
     (case getDatabaseVersion s of
        (Inl e, s') \<Rightarrow> (Inr True, s')
      | (Inr version, s') \<Rightarrow> (Inr (version = Some 0), s'))"

text \<open>\<open>currentVersion < DATABASE_VERSION\<close>, false for \<open>NaN\<close>.\<close>

fun version_less :: "int option \<Rightarrow> int \<Rightarrow> bool" where
  "version_less None v = False"
| "version_less (Some c) v = (c < v)"

definition runMigrations :: "string \<Rightarrow> unit io" where
  "runMigrations now =
     then_do openDatabase (\<lambda>_.
     then_do getDatabaseVersion (\<lambda>currentVersion.
       if currentVersion = Some 0 then
         then_do createTables (\<lambda>_.
         then_do createIndexes (\<lambda>_.
         setDatabaseVersion now DATABASE_VERSION))
       else if version_less currentVersion DATABASE_VERSION then
         setDatabaseVersion now DATABASE_VERSION
       else ret ()))"

section \<open>categoryService.js\<close>

record category_data =
  cd_name :: "string option"
  cd_icon :: "string option"
  cd_color :: "string option"
  cd_is_default :: bool

definition DEFAULT_CATEGORIES :: "category_data list" where
  "DEFAULT_CATEGORIES =
     map (\<lambda>(n, i, c). \<lparr>cd_name = Some n, cd_icon = Some i, cd_color = Some c, cd_is_default = False\<rparr>)
       [(''Food & Dining'', ''food'', ''#FF6B6B''),
        (''Transport'', ''car'', ''#4ECDC4''),
        (''Shopping'', ''shopping'', ''#45B7D1''),
        (''Bills & Utilities'', ''receipt'', ''#FFA07A''),
        (''Entertainment'', ''movie'', ''#98D8C8''),
        (''Health & Fitness'', ''heart'', ''#F7B731''),
        (''Education'', ''school'', ''#5F27CD''),
        (''Groceries'', ''cart'', ''#00D2D3''),
        (''Salary'', ''cash'', ''#1DD1A1''),
        (''Other Income'', ''cash-multiple'', ''#10AC84''),
        (''Uncategorized'', ''help-circle'', ''#95A5A6'')]"

definition is_hex_digit :: "char \<Rightarrow> bool" where
  "is_hex_digit c =
     (is_digit c \<or> (CHR ''A'' \<le> c \<and> c \<le> CHR ''F'') \<or> (CHR ''a'' \<le> c \<and> c \<le> CHR ''f''))"

text \<open>The regular expression \<open>/^#[0-9A-F]{6}$/i\<close>.\<close>

definition is_hex_color :: "string \<Rightarrow> bool" where
  "is_hex_color s = (length s = 7 \<and> hd s = CHR ''#'' \<and> list_all is_hex_digit (tl s))"

definition validateCategory :: "category_data \<Rightarrow> unit io" where
  "validateCategory data =
     (if \<not> truthy_str (cd_name data) \<or> trim (the (cd_name data)) = [] then
        throw (ValidationError ''Category name is required and must be a non-empty string'')
      else if truthy_str (cd_color data) \<and> \<not> is_hex_color (the (cd_color data)) then
        throw (ValidationError ''Color must be a valid hex color code (e.g., #FF6B6B)'')
      else ret ())"

text \<open>
  The row id an AUTOINCREMENT column gives the next insert: one more than the largest id
  the table has ever held.
\<close>

definition next_rowid :: "int \<Rightarrow> int list \<Rightarrow> int" where
  "next_rowid seq ids = fold max ids seq + 1"

text \<open>
  \<open>INSERT INTO categories (name, icon, color, is_default, created_at)\<close>; the column
  \<open>name\<close> is UNIQUE. The result is \<open>insertId\<close>.
\<close>

definition insert_category ::
  "string \<Rightarrow> string option \<Rightarrow> string option \<Rightarrow> int \<Rightarrow> string \<Rightarrow> int io" where
  "insert_category name icon color is_default created_at =
     executeSql [''categories'']
       (\<lambda>s. if name \<in> set (map c_name (categories s)) then
               (Inl (EngineError ''UNIQUE constraint failed: categories.name''), s)
             else
               (let i = next_rowid (seq_categories s) (map c_id (categories s))
                in (Inr i, s\<lparr>categories := categories s @
                        [\<lparr>c_id = i, c_name = name, c_icon = icon, c_color = color,
                          c_is_default = is_default, c_created_at = created_at\<rparr>],
                      seq_categories := i\<rparr>)))"

definition name_text :: "string option \<Rightarrow> string" where
  "name_text n = (case n of None \<Rightarrow> ''undefined'' | Some x \<Rightarrow> x)"

definition createCategory :: "string \<Rightarrow> category_data \<Rightarrow> category io" where
  "createCategory now data s =
     (case then_do (validateCategory data) (\<lambda>_.
           then_do (insert_category (trim (the (cd_name data))) (or_null (cd_icon data))
                      (or_null (cd_color data)) (if cd_is_default data then 1 else 0) now)
             (\<lambda>insertId.
           ret \<lparr>c_id = insertId, c_name = trim (the (cd_name data)),
                c_icon = or_null (cd_icon data), c_color = or_null (cd_color data),
                c_is_default = (if cd_is_default data then 1 else 0), c_created_at = now\<rparr>)) s of
        (Inl e, s') \<Rightarrow>
          if str_includes (message e) ''UNIQUE constraint failed'' then
            (Inl (ConstraintError (''Category with name '' @ quoted (name_text (cd_name data))
                    @ '' already exists'')), s')
          else (Inl e, s')
      | (Inr c, s') \<Rightarrow> (Inr c, s'))"

text \<open>\<open>SELECT * FROM categories WHERE id = ?\<close>, and its first row or \<open>null\<close>.\<close>

definition getCategoryById :: "int \<Rightarrow> (category option) io" where
  "getCategoryById i =
     executeSql [''categories'']
       (\<lambda>s. (Inr (case filter (\<lambda>c. c_id c = i) (categories s) of
                     [] \<Rightarrow> None | c # _ \<Rightarrow> Some c), s))"

text \<open>\<open>SELECT COUNT(*) as count FROM transactions WHERE category_id = ?\<close>.\<close>

definition count_category_transactions :: "int \<Rightarrow> nat io" where
  "count_category_transactions i =
     executeSql [''transactions'']
       (\<lambda>s. (Inr (length (filter (\<lambda>t. t_category_id t = Some i) (transactions s))), s))"

text \<open>\<open>SELECT COUNT(*) as count FROM budgets WHERE category_id = ?\<close>.\<close>

definition count_category_budgets :: "int \<Rightarrow> nat io" where
  "count_category_budgets i =
     executeSql [''budgets'']
       (\<lambda>s. (Inr (length (filter (\<lambda>b. b_category_id b = i) (budgets s))), s))"

text \<open>\<open>DELETE FROM categories WHERE id = ?\<close>.\<close>

definition delete_category_row :: "int \<Rightarrow> unit io" where
  "delete_category_row i =
     executeSql [''categories'']
       (\<lambda>s. (Inr (), s\<lparr>categories := filter (\<lambda>c. c_id c \<noteq> i) (categories s)\<rparr>))"

definition deleteCategory :: "int \<Rightarrow> unit io" where
  "deleteCategory i =
     then_do (getCategoryById i) (\<lambda>existing.
       if existing = None then
         throw (NotFoundError (''Category with id '' @ string_of_int i @ '' not found''))
       else
     then_do (count_category_transactions i) (\<lambda>transactionCount.
       if transactionCount > 0 then
         throw (ConstraintError (''Cannot delete category with '' @ string_of_nat transactionCount
                  @ '' associated transaction(s)''))
       else
     then_do (count_category_budgets i) (\<lambda>budgetCount.
       if budgetCount > 0 then
         throw (ConstraintError (''Cannot delete category with '' @ string_of_nat budgetCount
                  @ '' associated budget(s)''))
       else delete_category_row i)))"

text \<open>
  The loop of \<open>seedDefaultCategories\<close>: a category that already exists is skipped, any
  other failure ends the loop with that failure.
\<close>

fun seed_categories :: "string \<Rightarrow> category_data list \<Rightarrow> category list \<Rightarrow> (category list) io" where
  "seed_categories now [] created s = (Inr created, s)"
| "seed_categories now (c # cs) created s =
     (case createCategory now (c\<lparr>cd_is_default := True\<rparr>) s of
        (Inr row, s') \<Rightarrow> seed_categories now cs (created @ [row]) s'
      | (Inl e, s') \<Rightarrow>
          if str_includes (message e) ''already exists'' then seed_categories now cs created s'
          else (Inl e, s'))"

definition seedDefaultCategories :: "string \<Rightarrow> (category list) io" where
  "seedDefaultCategories now = seed_categories now DEFAULT_CATEGORIES []"

section \<open>settingsService.js\<close>

definition DEFAULT_SETTINGS :: "(string \<times> string) list" where
  "DEFAULT_SETTINGS =
     [(''currency'', ''USD''), (''theme'', ''light''),
      (''notifications_enabled'', ''true''), (''budget_alerts_enabled'', ''true'')]"

definition getSetting :: "string \<Rightarrow> (string option) io" where
  "getSetting key =
     then_do (select_setting_values key) (\<lambda>rows.
       ret (case rows of [] \<Rightarrow> None | v # _ \<Rightarrow> Some v))"

text \<open>The value is a string or \<open>null\<close>/\<open>undefined\<close> (\<open>None\<close>), the key a string.\<close>

definition setSetting :: "string \<Rightarrow> string \<Rightarrow> string option \<Rightarrow> setting io" where
  "setSetting now key val =
     (if key = [] \<or> trim key = [] then
        throw (ValidationError ''Setting key is required and must be a non-empty string'')
      else if val = None then
        throw (ValidationError ''Setting value cannot be null or undefined'')
      else
        then_do (replace_setting key (the val) now) (\<lambda>_.
          ret \<lparr>s_key = key, s_value = the val, s_updated_at = now\<rparr>))"

fun initialize_settings :: "string \<Rightarrow> (string \<times> string) list \<Rightarrow> unit io" where
  "initialize_settings now [] s = (Inr (), s)"
| "initialize_settings now ((key, val) # rest) s =
     (case getSetting key s of
        (Inl e, s') \<Rightarrow> (Inl e, s')
      | (Inr existing, s') \<Rightarrow>
          if existing = None then
            (case setSetting now key (Some val) s' of
               (Inl e, s'') \<Rightarrow> (Inl e, s'')
             | (Inr _, s'') \<Rightarrow> initialize_settings now rest s'')
          else initialize_settings now rest s')"

definition initializeDefaultSettings :: "string \<Rightarrow> unit io" where
  "initializeDefaultSettings now = initialize_settings now DEFAULT_SETTINGS"

section \<open>index.js: startup\<close>

definition initializeDatabase :: "string \<Rightarrow> unit io" where
  "initializeDatabase now =
     then_do openDatabase (\<lambda>_.
     then_do (runMigrations now) (\<lambda>_.
     then_do isFirstLaunch (\<lambda>firstLaunch.
       if firstLaunch then
         then_do (seedDefaultCategories now) (\<lambda>_. initializeDefaultSettings now)
       else ret ())))"

section \<open>transactionService.js\<close>

record transaction_data =
  td_amount :: jsval
  td_description :: "string option"
  td_type :: "string option"
  td_date :: "string option"
  td_category_id :: "int option"
  td_is_manually_set :: bool
  td_source :: "string option"
  td_raw_data :: "string option"

text \<open>The number a validated amount holds.\<close>

fun num_of :: "jsval \<Rightarrow> rat" where
  "num_of (JNum r) = r"
| "num_of v = 0"

definition validateTransaction :: "transaction_data \<Rightarrow> unit io" where
  "validateTransaction data =
     (if \<not> truthy (td_amount data) \<or> \<not> is_number (td_amount data) \<or> le_zero (td_amount data) then
        throw (ValidationError ''Amount must be a number greater than 0'')
      else if \<not> truthy_str (td_description data) \<or> trim (the (td_description data)) = [] then
        throw (ValidationError ''Description is required and must be a non-empty string'')
      else if \<not> truthy_str (td_type data) \<or> the (td_type data) \<notin> set [''income'', ''expense''] then
        throw (ValidationError (''Type must be either '' @ quoted ''income'' @ '' or '' @ quoted ''expense''))
      else if truthy_str (td_date data) \<and> \<not> is_date_format (the (td_date data)) then
        throw (ValidationError ''Date must be in ISO 8601 format (YYYY-MM-DD)'')
      else if truthy_str (td_source data)
              \<and> the (td_source data) \<notin> set [''manual'', ''sms'', ''upload''] then
        throw (ValidationError (''Source must be '' @ quoted ''manual'' @ '', '' @ quoted ''sms'' @ '', or ''
                 @ quoted ''upload''))
      else ret ())"

text \<open>\<open>INSERT INTO transactions (...)\<close>; the row comes without its id, the result is \<open>insertId\<close>.\<close>

definition insert_transaction :: "transaction \<Rightarrow> int io" where
  "insert_transaction row =
     executeSql [''transactions'']
       (\<lambda>s. let i = next_rowid (seq_transactions s) (map t_id (transactions s))
             in (Inr i, s\<lparr>transactions := transactions s @ [row\<lparr>t_id := i\<rparr>],
                           seq_transactions := i\<rparr>))"

definition createTransaction :: "string \<Rightarrow> transaction_data \<Rightarrow> transaction io" where
  "createTransaction now data =
     then_do (validateTransaction data) (\<lambda>_.
       let row = \<lparr>t_id = 0, t_amount = num_of (td_amount data),
                  t_description = trim (the (td_description data)),
                  t_date = or_str (td_date data) (today now),
                  t_type = the (td_type data),
                  t_category_id = id_or_null (td_category_id data),
                  t_is_manually_set = (if td_is_manually_set data then 1 else 0),
                  t_source = Some (or_str (td_source data) ''manual''),
                  t_raw_data = or_null (td_raw_data data),
                  t_created_at = now, t_updated_at = now\<rparr>
       in then_do (insert_transaction row) (\<lambda>insertId. ret (row\<lparr>t_id := insertId\<rparr>)))"

text \<open>
  \<open>SELECT t.*, c.name, c.icon, c.color FROM transactions t LEFT JOIN categories c ON
  t.category_id = c.id WHERE t.id = ?\<close>, and its first row or \<open>null\<close>: the transaction
  with the category it joins, if any.
\<close>

definition getTransactionById :: "int \<Rightarrow> ((transaction \<times> category option) option) io" where
  "getTransactionById i =
     executeSql [''transactions'', ''categories'']
       (\<lambda>s. (Inr (case filter (\<lambda>t. t_id t = i) (transactions s) of
                     [] \<Rightarrow> None
                   | t # _ \<Rightarrow> Some (t, find (\<lambda>c. Some (c_id c) = t_category_id t) (categories s))), s))"

text \<open>\<open>UPDATE transactions SET ... WHERE id = ?\<close>.\<close>

definition update_transaction_row ::
  "int \<Rightarrow> rat \<Rightarrow> string \<Rightarrow> string \<Rightarrow> string \<Rightarrow> int option \<Rightarrow> int \<Rightarrow> string option
     \<Rightarrow> string option \<Rightarrow> string \<Rightarrow> unit io" where
  "update_transaction_row i amount description date type category_id is_manually_set source
       raw_data updated_at =
     executeSql [''transactions'']
       (\<lambda>s. (Inr (), s\<lparr>transactions :=
                map (\<lambda>t. if t_id t = i then
                            t\<lparr>t_amount := amount, t_description := description, t_date := date,
                              t_type := type, t_category_id := category_id,
                              t_is_manually_set := is_manually_set, t_source := source,
                              t_raw_data := raw_data, t_updated_at := updated_at\<rparr>
                          else t) (transactions s)\<rparr>))"

text \<open>\<open>x || y\<close> where \<open>y\<close> is a nullable column of the stored row.\<close>

definition or_stored :: "string option \<Rightarrow> string option \<Rightarrow> string option" where
  "or_stored x stored = (if truthy_str x then x else stored)"

definition updateTransaction ::
  "string \<Rightarrow> int \<Rightarrow> transaction_data \<Rightarrow> ((transaction \<times> category option) option) io" where
  "updateTransaction now i data =
     then_do (validateTransaction data) (\<lambda>_.
     then_do (getTransactionById i) (\<lambda>existing.
       case existing of
         None \<Rightarrow> throw (NotFoundError (''Transaction with id '' @ string_of_int i @ '' not found''))
       | Some (old, _) \<Rightarrow>
           then_do (update_transaction_row i (num_of (td_amount data))
                      (trim (the (td_description data)))
                      (or_str (td_date data) (t_date old))
                      (the (td_type data))
                      (id_or_null (td_category_id data))
                      (if td_is_manually_set data then 1 else 0)
                      (or_stored (td_source data) (t_source old))
                      (or_stored (td_raw_data data) (t_raw_data old))
                      now) (\<lambda>_.
           getTransactionById i)))"


text \<open>\<open>SUM\<close> over the selected rows: \<open>NULL\<close> (\<open>None\<close>) when there is no row.\<close>

definition sql_sum :: "rat list \<Rightarrow> rat option" where
  "sql_sum xs = (if xs = [] then None else Some (sum_list xs))"

text \<open>\<open>x || 0\<close> on a number or \<open>null\<close>.\<close>

fun or_zero :: "rat option \<Rightarrow> rat" where
  "or_zero None = 0"
| "or_zero (Some r) = r"






definition group_key :: "category \<Rightarrow> int \<times> string \<times> string option \<times> string option" where
  "group_key c = (c_id c, c_name c, c_icon c, c_color c)"



section \<open>budgetService.js\<close>

record budget_data =
  bd_amount :: jsval
  bd_category_id :: "int option"
  bd_period :: "string option"
  bd_start_date :: "string option"
  bd_end_date :: "string option"

definition validateBudget :: "budget_data \<Rightarrow> unit io" where
  "validateBudget data =
     (if \<not> truthy (bd_amount data) \<or> \<not> is_number (bd_amount data) \<or> le_zero (bd_amount data) then
        throw (ValidationError ''Amount must be a number greater than 0'')
      else if \<not> truthy_id (bd_category_id data) then
        throw (ValidationError ''Category ID is required and must be a number'')
      else if \<not> truthy_str (bd_period data) \<or> the (bd_period data) \<notin> set [''monthly'', ''weekly''] then
        throw (ValidationError (''Period must be either '' @ quoted ''monthly'' @ '' or ''
                 @ quoted ''weekly''))
      else if \<not> truthy_str (bd_start_date data) \<or> \<not> is_date_format (the (bd_start_date data)) then
        throw (ValidationError
                 ''Start date is required and must be in ISO 8601 format (YYYY-MM-DD)'')
      else if truthy_str (bd_end_date data) \<and> \<not> is_date_format (the (bd_end_date data)) then
        throw (ValidationError ''End date must be in ISO 8601 format (YYYY-MM-DD)'')
      else if truthy_str (bd_end_date data) \<and> the (bd_start_date data) > the (bd_end_date data) then
        throw (ValidationError ''End date must be after start date'')
      else ret ())"

text \<open>\<open>SELECT id FROM categories WHERE id = ?\<close>.\<close>

definition select_category_ids :: "int \<Rightarrow> (int list) io" where
  "select_category_ids i =
     executeSql [''categories'']
       (\<lambda>s. (Inr (map c_id (filter (\<lambda>c. c_id c = i) (categories s))), s))"

text \<open>\<open>INSERT INTO budgets (...)\<close>; the row comes without its id, the result is \<open>insertId\<close>.\<close>

definition insert_budget :: "budget \<Rightarrow> int io" where
  "insert_budget row =
     executeSql [''budgets'']
       (\<lambda>s. let i = next_rowid (seq_budgets s) (map b_id (budgets s))
             in (Inr i, s\<lparr>budgets := budgets s @ [row\<lparr>b_id := i\<rparr>], seq_budgets := i\<rparr>))"

definition createBudget :: "string \<Rightarrow> budget_data \<Rightarrow> budget io" where
  "createBudget now data =
     then_do (validateBudget data) (\<lambda>_.
     then_do (select_category_ids (the (bd_category_id data))) (\<lambda>categoryCheck.
       if length categoryCheck = 0 then
         throw (ValidationError (''Category with id '' @ string_of_int (the (bd_category_id data))
                  @ '' does not exist''))
       else
         let row = \<lparr>b_id = 0, b_category_id = the (bd_category_id data),
                    b_amount = num_of (bd_amount data), b_period = the (bd_period data),
                    b_start_date = the (bd_start_date data),
                    b_end_date = or_null (bd_end_date data),
                    b_created_at = now, b_updated_at = now\<rparr>
         in then_do (insert_budget row) (\<lambda>insertId. ret (row\<lparr>b_id := insertId\<rparr>))))"

text \<open>
  \<open>SELECT b.*, c.name, c.icon, c.color FROM budgets b JOIN categories c ON
  b.category_id = c.id WHERE b.id = ?\<close>, and its first row or \<open>null\<close>.
\<close>

definition getBudgetById :: "int \<Rightarrow> ((budget \<times> category) option) io" where
  "getBudgetById i =
     executeSql [''budgets'', ''categories'']
       (\<lambda>s. (Inr (case concat (map (\<lambda>b. map (\<lambda>c. (b, c))
                                       (filter (\<lambda>c. b_category_id b = c_id c) (categories s)))
                                 (filter (\<lambda>b. b_id b = i) (budgets s))) of
                     [] \<Rightarrow> None | r # _ \<Rightarrow> Some r), s))"

text \<open>\<open>UPDATE budgets SET ... WHERE id = ?\<close>.\<close>

definition update_budget_row ::
  "int \<Rightarrow> int \<Rightarrow> rat \<Rightarrow> string \<Rightarrow> string \<Rightarrow> string option \<Rightarrow> string \<Rightarrow> unit io" where
  "update_budget_row i category_id amount period start_date end_date updated_at =
     executeSql [''budgets'']
       (\<lambda>s. (Inr (), s\<lparr>budgets :=
                map (\<lambda>b. if b_id b = i then
                            b\<lparr>b_category_id := category_id, b_amount := amount, b_period := period,
                              b_start_date := start_date, b_end_date := end_date,
                              b_updated_at := updated_at\<rparr>
                          else b) (budgets s)\<rparr>))"

definition updateBudget :: "string \<Rightarrow> int \<Rightarrow> budget_data \<Rightarrow> ((budget \<times> category) option) io" where
  "updateBudget now i data =
     then_do (validateBudget data) (\<lambda>_.
     then_do (getBudgetById i) (\<lambda>existing.
       if existing = None then
         throw (NotFoundError (''Budget with id '' @ string_of_int i @ '' not found''))
       else
     then_do (select_category_ids (the (bd_category_id data))) (\<lambda>categoryCheck.
       if length categoryCheck = 0 then
         throw (ValidationError (''Category with id '' @ string_of_int (the (bd_category_id data))
                  @ '' does not exist''))
       else
     then_do (update_budget_row i (the (bd_category_id data)) (num_of (bd_amount data))
                (the (bd_period data)) (the (bd_start_date data)) (or_null (bd_end_date data)) now)
       (\<lambda>_. getBudgetById i))))"

record budget_progress =
  budget_id :: int
  budget_amount :: rat
  spent :: rat
  remaining :: rat
  percentage :: rat
  is_exceeded :: bool
  period_start :: string
  period_end :: string

text \<open>
  \<open>SELECT COALESCE(SUM(amount), 0) as spent FROM transactions WHERE category_id = ? AND
  type = 'expense' AND date >= ? AND date <= ?\<close>.
\<close>

definition select_spent :: "int \<Rightarrow> string \<Rightarrow> string \<Rightarrow> rat io" where
  "select_spent category_id periodStart periodEnd =
     executeSql [''transactions'']
       (\<lambda>s. (Inr (or_zero (sql_sum (map t_amount
                      (filter (\<lambda>t. t_category_id t = Some category_id \<and> t_type t = ''expense''
                                    \<and> periodStart \<le> t_date t \<and> t_date t \<le> periodEnd)
                              (transactions s))))), s))"

text \<open>\<open>Math.round\<close>: the nearest integer, a half rounded up.\<close>

definition math_round :: "rat \<Rightarrow> rat" where
  "math_round x = of_int \<lfloor>x + 1 / 2\<rfloor>"

text \<open>\<open>Math.round(x * 100) / 100\<close>: \<open>x\<close> to two decimals.\<close>

definition round2 :: "rat \<Rightarrow> rat" where
  "round2 x = math_round (x * 100) / 100"

definition getBudgetProgress ::
  "string \<Rightarrow> int \<Rightarrow> string option \<Rightarrow> string option \<Rightarrow> budget_progress io" where
  "getBudgetProgress now budgetId startDate endDate =
     then_do (getBudgetById budgetId) (\<lambda>found.
       case found of
         None \<Rightarrow> throw (NotFoundError (''Budget with id '' @ string_of_int budgetId @ '' not found''))
       | Some (budget, _) \<Rightarrow>
           let periodStart = or_str startDate (b_start_date budget);
               periodEnd = or_str endDate (today now)
           in then_do (select_spent (b_category_id budget) periodStart periodEnd) (\<lambda>spent.
                let remaining = b_amount budget - spent;
                    percentage = (if b_amount budget > 0 then (spent / b_amount budget) * 100 else 0)
                in ret \<lparr>budget_id = budgetId, budget_amount = b_amount budget, spent = spent,
                         remaining = remaining,
                         percentage = round2 percentage,
                         is_exceeded = (spent > b_amount budget),
                         period_start = periodStart, period_end = periodEnd\<rparr>))"

subsection \<open>Status of a budget\<close>

datatype budget_status = OnTrack | Warning | Exceeded

text \<open>
  Modelled from the spec: the three-way status classification of a progress percentage.
  \<open>getBudgetProgress\<close> returns the percentage and \<open>is_exceeded\<close> only; the status is what
  the callers derive from the percentage, and no function of the source computes it.
  The spec: below 80 is on-track, from 80 and below 100 is warning, 100 and above is
  exceeded.
\<close>

definition budgetStatus :: "rat \<Rightarrow> budget_status" where
  "budgetStatus p = (if p < 80 then OnTrack else if p < 100 then Warning else Exceeded)"

section \<open>An example database\<close>

text \<open>
  A migrated database with four categories, five transactions and two budgets. Salary is
  used by income and by expense rows, Transport is used by nothing, Bills & Utilities by a
  budget alone.
\<close>

definition example_transaction ::
  "int \<Rightarrow> rat \<Rightarrow> string \<Rightarrow> string \<Rightarrow> string \<Rightarrow> int option \<Rightarrow> transaction" where
  "example_transaction i amount description date type category_id =
     \<lparr>t_id = i, t_amount = amount, t_description = description, t_date = date, t_type = type,
      t_category_id = category_id, t_is_manually_set = 0, t_source = Some ''sms'',
      t_raw_data = Some ''raw'', t_created_at = ''2024-03-01T09:00:00.000Z'',
      t_updated_at = ''2024-03-01T09:00:00.000Z''\<rparr>"

definition example_database :: database where
  "example_database =
     \<lparr>db_open = True, executed = 10,
      tables = [''categories'', ''transactions'', ''budgets'', ''settings''],
      indexes = [''idx_transactions_date'', ''idx_transactions_category'',
                 ''idx_transactions_type'', ''idx_budgets_category''],
      categories =
        [\<lparr>c_id = 1, c_name = ''Food & Dining'', c_icon = Some ''food'', c_color = Some ''#FF6B6B'',
          c_is_default = 1, c_created_at = ''2024-03-01T08:00:00.000Z''\<rparr>,
         \<lparr>c_id = 2, c_name = ''Salary'', c_icon = Some ''cash'', c_color = Some ''#1DD1A1'',
          c_is_default = 1, c_created_at = ''2024-03-01T08:00:00.000Z''\<rparr>,
         \<lparr>c_id = 3, c_name = ''Transport'', c_icon = Some ''car'', c_color = Some ''#4ECDC4'',
          c_is_default = 1, c_created_at = ''2024-03-01T08:00:00.000Z''\<rparr>,
         \<lparr>c_id = 4, c_name = ''Bills & Utilities'', c_icon = Some ''receipt'',
          c_color = Some ''#FFA07A'', c_is_default = 1,
          c_created_at = ''2024-03-01T08:00:00.000Z''\<rparr>],
      transactions =
        [example_transaction 1 150 ''Dinner'' ''2024-03-03'' ''expense'' (Some 1),
         example_transaction 2 100 ''Bonus'' ''2024-03-01'' ''income'' (Some 2),
         example_transaction 3 200 ''Pay'' ''2024-03-10'' ''income'' (Some 2),
         example_transaction 4 50 ''Payroll fee'' ''2024-03-18'' ''expense'' (Some 2),
         example_transaction 5 250 ''Party'' ''2024-03-20'' ''expense'' (Some 1)],
      budgets =
        [\<lparr>b_id = 1, b_category_id = 1, b_amount = 500, b_period = ''monthly'',
          b_start_date = ''2024-03-01'', b_end_date = None,
          b_created_at = ''2024-03-01T08:30:00.000Z'', b_updated_at = ''2024-03-01T08:30:00.000Z''\<rparr>,
         \<lparr>b_id = 2, b_category_id = 4, b_amount = 120, b_period = ''weekly'',
          b_start_date = ''2024-03-04'', b_end_date = Some ''2024-03-10'',
          b_created_at = ''2024-03-01T08:40:00.000Z'', b_updated_at = ''2024-03-01T08:40:00.000Z''\<rparr>],
      settings = [\<lparr>s_key = ''db_version'', s_value = ''1'',
                   s_updated_at = ''2024-03-01T08:00:00.000Z''\<rparr>],
      seq_categories = 4, seq_transactions = 5, seq_budgets = 2\<rparr>"

section \<open>Sequencing and the engine\<close>


lemma then_do_Inr: "m s = (Inr a, s') \<Longrightarrow> then_do m f s = f a s'"
  by (simp add: then_do_def)

lemma then_do_alt:
  "then_do m f s = (case fst (m s) of Inl e \<Rightarrow> (Inl e, snd (m s)) | Inr a \<Rightarrow> f a (snd (m s)))"
  by (simp add: then_do_def split: prod.splits sum.splits)

lemma executeSql_ready:
  assumes "set needs \<subseteq> set (tables s)"
  shows "executeSql needs stmt s = stmt (s\<lparr>db_open := True, executed := Suc (executed s)\<rparr>)"
proof -
  have "find (\<lambda>t. t \<notin> set (tables s)) needs = None"
    using assms by (auto simp: find_None_iff)
  then show ?thesis by (simp add: executeSql_def)
qed

lemma parseInt_version: "parseInt (string_of_int DATABASE_VERSION) = Some 1"
  by (simp add: parseInt_def string_of_int_def DATABASE_VERSION_def string_of_nat.simps
      is_space_def is_digit_def digits_value_def digit_value_def Let_def)

lemma getDatabaseVersion_eq:
  "getDatabaseVersion s =
     (Inr (if ''settings'' \<in> set (tables s) then
             (case filter (\<lambda>r. s_key r = ''db_version'') (settings s) of
                [] \<Rightarrow> Some 0 | r # _ \<Rightarrow> parseInt (s_value r))
           else Some 0),
      s\<lparr>db_open := True, executed := Suc (executed s)\<rparr>)"
  by (auto simp: getDatabaseVersion_def select_setting_values_def executeSql_def Let_def
      split: list.splits)

lemma create_table_eq:
  "create_table name s =
     (Inr (), if name \<in> set (tables s) then s\<lparr>db_open := True, executed := Suc (executed s)\<rparr>
              else clear_table name (s\<lparr>db_open := True, executed := Suc (executed s), tables := tables s @ [name]\<rparr>))"
  by (simp add: create_table_def executeSql_def)

lemma tables_clear_table [simp]: "tables (clear_table name s) = tables s"
  by (simp add: clear_table_def)

lemma indexes_clear_table [simp]: "indexes (clear_table name s) = indexes s"
  by (simp add: clear_table_def)

lemma executed_clear_table [simp]: "executed (clear_table name s) = executed s"
  by (simp add: clear_table_def)

lemma db_open_clear_table [simp]: "db_open (clear_table name s) = db_open s"
  by (simp add: clear_table_def)

lemma create_table_fst [simp]: "fst (create_table name s) = Inr ()"
  by (simp add: create_table_eq)

lemma create_table_tables:
  "tables (snd (create_table name s)) = (if name \<in> set (tables s) then tables s else tables s @ [name])"
  by (simp add: create_table_eq)

lemma create_table_indexes [simp]: "indexes (snd (create_table name s)) = indexes s"
  by (simp add: create_table_eq)

lemma createTables_fst [simp]: "fst (createTables s) = Inr ()"
  by (simp add: createTables_def then_do_alt)

lemma createTables_tables:
  "set (tables (snd (createTables s))) =
     set (tables s) \<union> {''categories'', ''transactions'', ''budgets'', ''settings''}"
  by (auto simp: createTables_def then_do_alt create_table_tables)

lemma createTables_distinct:
  "distinct (tables s) \<Longrightarrow> distinct (tables (snd (createTables s)))"
  by (simp add: createTables_def then_do_alt create_table_tables)

lemma createTables_indexes [simp]: "indexes (snd (createTables s)) = indexes s"
  by (simp add: createTables_def then_do_alt)

lemma create_index_eq:
  assumes "tbl \<in> set (tables s)"
  shows "create_index name tbl s =
     (Inr (), if name \<in> set (indexes s) then s\<lparr>db_open := True, executed := Suc (executed s)\<rparr>
              else s\<lparr>db_open := True, executed := Suc (executed s), indexes := indexes s @ [name]\<rparr>)"
  using assms by (simp add: create_index_def executeSql_ready)

lemma create_index_facts:
  assumes "tbl \<in> set (tables s)"
  shows "fst (create_index name tbl s) = Inr ()"
    and "tables (snd (create_index name tbl s)) = tables s"
    and "settings (snd (create_index name tbl s)) = settings s"
    and "indexes (snd (create_index name tbl s)) =
           (if name \<in> set (indexes s) then indexes s else indexes s @ [name])"
  using assms by (simp_all add: create_index_eq)

lemma createIndexes_facts:
  assumes "''transactions'' \<in> set (tables s)" and "''budgets'' \<in> set (tables s)"
  shows "fst (createIndexes s) = Inr ()"
    and "tables (snd (createIndexes s)) = tables s"
    and "settings (snd (createIndexes s)) = settings s"
    and "set (indexes (snd (createIndexes s))) = set (indexes s) \<union>
           {''idx_transactions_date'', ''idx_transactions_category'', ''idx_transactions_type'',
            ''idx_budgets_category''}"
  using assms by (auto simp: createIndexes_def then_do_alt create_index_facts)

lemma setDatabaseVersion_eq:
  assumes "''settings'' \<in> set (tables s)"
  shows "setDatabaseVersion now v s =
     (Inr (), s\<lparr>db_open := True, executed := Suc (executed s),
                settings := filter (\<lambda>r. s_key r \<noteq> ''db_version'') (settings s)
                  @ [\<lparr>s_key = ''db_version'', s_value = string_of_int v, s_updated_at = now\<rparr>]\<rparr>)"
  using assms by (simp add: setDatabaseVersion_def replace_setting_def executeSql_ready)

lemma filter_replaced:
  "filter (\<lambda>r. s_key r = k) (filter (\<lambda>r. s_key r \<noteq> k) xs @ [\<lparr>s_key = k, s_value = v, s_updated_at = u\<rparr>])
     = [\<lparr>s_key = k, s_value = v, s_updated_at = u\<rparr>]"
  by (induction xs) auto

lemma setDatabaseVersion_version:
  assumes "''settings'' \<in> set (tables s)"
  shows "fst (getDatabaseVersion (snd (setDatabaseVersion now DATABASE_VERSION s))) = Inr (Some 1)"
  using assms
  by (simp add: setDatabaseVersion_eq getDatabaseVersion_eq filter_replaced parseInt_version)

lemma getDatabaseVersion_open [simp]:
  "fst (getDatabaseVersion (s\<lparr>db_open := b\<rparr>)) = fst (getDatabaseVersion s)"
  "fst (getDatabaseVersion (s\<lparr>executed := n\<rparr>)) = fst (getDatabaseVersion s)"
  by (simp_all add: getDatabaseVersion_eq)

lemma runMigrations_noop:
  assumes "fst (getDatabaseVersion s) = Inr v" and "v \<noteq> Some 0"
    and "\<not> version_less v DATABASE_VERSION"
  shows "runMigrations now s = (Inr (), s\<lparr>db_open := True, executed := Suc (executed s)\<rparr>)"
proof -
  have "getDatabaseVersion (s\<lparr>db_open := True\<rparr>)
          = (Inr v, s\<lparr>db_open := True, executed := Suc (executed s)\<rparr>)"
    using assms(1) by (auto simp: getDatabaseVersion_eq split: if_splits)
  then show ?thesis
    using assms(2,3) by (simp add: runMigrations_def then_do_def openDatabase_def ret_def)
qed

lemma runMigrations_fst: "fst (runMigrations now s) = Inr ()"
proof -
  obtain v where v: "getDatabaseVersion (s\<lparr>db_open := True\<rparr>)
         = (Inr v, s\<lparr>db_open := True, executed := Suc (executed s)\<rparr>)"
    by (simp add: getDatabaseVersion_eq)
  let ?sb = "s\<lparr>db_open := True, executed := Suc (executed s)\<rparr>"
  show ?thesis
  proof (cases "v = Some 0")
    case True
    have t: "''transactions'' \<in> set (tables (snd (createTables ?sb)))"
         "''budgets'' \<in> set (tables (snd (createTables ?sb)))"
         "''settings'' \<in> set (tables (snd (createTables ?sb)))"
      by (simp_all add: createTables_tables)
    have "fst (setDatabaseVersion now DATABASE_VERSION (snd (createIndexes (snd (createTables ?sb))))) = Inr ()"
      using t by (simp add: setDatabaseVersion_eq createIndexes_facts)
    then show ?thesis
      using True v t
      by (simp add: runMigrations_def then_do_alt openDatabase_def createIndexes_facts)
  next
    case False
    show ?thesis
    proof (cases "version_less v DATABASE_VERSION")
      case True
      have "''settings'' \<in> set (tables s)"
        using v False by (auto simp: getDatabaseVersion_eq split: if_splits)
      then show ?thesis
        using v False True
        by (simp add: runMigrations_def then_do_alt openDatabase_def setDatabaseVersion_eq)
    next
      case nl: False
      then show ?thesis
        using v False
        by (simp add: runMigrations_def then_do_alt openDatabase_def ret_def)
    qed
  qed
qed

lemma runMigrations_eq:
  assumes "fst (getDatabaseVersion s) = Inr v"
  shows "runMigrations now s =
     (if v = Some 0 then
        setDatabaseVersion now DATABASE_VERSION
          (snd (createIndexes (snd (createTables (s\<lparr>db_open := True, executed := Suc (executed s)\<rparr>)))))
      else if version_less v DATABASE_VERSION then
        setDatabaseVersion now DATABASE_VERSION (s\<lparr>db_open := True, executed := Suc (executed s)\<rparr>)
      else (Inr (), s\<lparr>db_open := True, executed := Suc (executed s)\<rparr>))"
proof -
  let ?sb = "s\<lparr>db_open := True, executed := Suc (executed s)\<rparr>"
  have v: "getDatabaseVersion (s\<lparr>db_open := True\<rparr>) = (Inr v, ?sb)"
    using assms by (auto simp: getDatabaseVersion_eq split: if_splits)
  have t: "''transactions'' \<in> set (tables (snd (createTables ?sb)))"
       "''budgets'' \<in> set (tables (snd (createTables ?sb)))"
    by (simp_all add: createTables_tables)
  show ?thesis
    using v t by (simp add: runMigrations_def then_do_alt openDatabase_def createIndexes_facts ret_def)
qed

lemma runMigrations_version:
  "\<exists>v. fst (getDatabaseVersion (snd (runMigrations now s))) = Inr v \<and> v \<noteq> Some 0
       \<and> \<not> version_less v DATABASE_VERSION"
proof -
  let ?sb = "s\<lparr>db_open := True, executed := Suc (executed s)\<rparr>"
  obtain v where v: "fst (getDatabaseVersion s) = Inr v"
    by (simp add: getDatabaseVersion_eq)
  note eq = runMigrations_eq [OF v, of now]
  show ?thesis
  proof (cases "v = Some 0")
    case True
    have "''settings'' \<in> set (tables (snd (createIndexes (snd (createTables ?sb)))))"
      by (simp add: createIndexes_facts createTables_tables)
    then have "fst (getDatabaseVersion (snd (runMigrations now s))) = Inr (Some 1)"
      using True eq by (simp add: setDatabaseVersion_version)
    then show ?thesis by (simp add: DATABASE_VERSION_def)
  next
    case False
    show ?thesis
    proof (cases "version_less v DATABASE_VERSION")
      case True
      have "''settings'' \<in> set (tables ?sb)"
        using v False by (auto simp: getDatabaseVersion_eq split: if_splits)
      then have "fst (getDatabaseVersion (snd (runMigrations now s))) = Inr (Some 1)"
        using True False eq by (simp add: setDatabaseVersion_version)
      then show ?thesis by (simp add: DATABASE_VERSION_def)
    next
      case nl: False
      then show ?thesis using False v eq by simp
    qed
  qed
qed

lemma isFirstLaunch_eq:
  "isFirstLaunch s = (Inr (fst (getDatabaseVersion s) = Inr (Some 0)), snd (getDatabaseVersion s))"
  by (simp add: isFirstLaunch_def getDatabaseVersion_eq)

section \<open>Migrations and first launch\<close>

text \<open>
  Claim C8. Running \<open>runMigrations\<close> twice in a row gives what running it once gives:
  both runs succeed, and the second run leaves the whole database as the first run left it
  (the schema, the settings with the stored \<open>db_version\<close>, every row), apart from the
  connection flag and the count of executed statements, since it reads the version once
  and does nothing else. Tables are created with IF NOT EXISTS, so a schema without
  duplicate tables stays without them. When no version key is stored (the settings table
  is missing or holds no \<open>db_version\<close> row), \<open>isFirstLaunch\<close> is true before the run and
  false after it, and the stored version is then the target version.
\<close>

theorem runMigrations_idempotent:
  assumes "runMigrations now1 s = (r1, s1)" and "runMigrations now2 s1 = (r2, s2)"
  shows "r1 = Inr () \<and> r2 = Inr ()
     \<and> s2 = s1\<lparr>db_open := True, executed := Suc (executed s1)\<rparr>
     \<and> tables s2 = tables s1 \<and> indexes s2 = indexes s1 \<and> settings s2 = settings s1
     \<and> (distinct (tables s) \<longrightarrow> distinct (tables s1))
     \<and> (''settings'' \<notin> set (tables s) \<or> ''db_version'' \<notin> set (map s_key (settings s)) \<longrightarrow>
          fst (isFirstLaunch s) = Inr True \<and> fst (isFirstLaunch s1) = Inr False
          \<and> map s_value (filter (\<lambda>r. s_key r = ''db_version'') (settings s1))
              = [string_of_int DATABASE_VERSION])"
proof -
  let ?sb = "s\<lparr>db_open := True, executed := Suc (executed s)\<rparr>"
  have r1: "r1 = Inr ()"
    using assms(1) runMigrations_fst [of now1 s] by simp
  have s1: "s1 = snd (runMigrations now1 s)"
    using assms(1) by simp
  obtain v where v: "fst (getDatabaseVersion s1) = Inr v" "v \<noteq> Some 0"
      "\<not> version_less v DATABASE_VERSION"
    using runMigrations_version [of now1 s] s1 by auto
  have second: "runMigrations now2 s1 = (Inr (), s1\<lparr>db_open := True, executed := Suc (executed s1)\<rparr>)"
    using v by (rule runMigrations_noop)
  have r2: "r2 = Inr ()" and s2: "s2 = s1\<lparr>db_open := True, executed := Suc (executed s1)\<rparr>"
    using second assms(2) by simp_all
  obtain v0 where v0: "fst (getDatabaseVersion s) = Inr v0"
    by (simp add: getDatabaseVersion_eq)
  note eq = runMigrations_eq [OF v0, of now1]
  have tb: "''transactions'' \<in> set (tables (snd (createTables ?sb)))"
       "''budgets'' \<in> set (tables (snd (createTables ?sb)))"
       "''settings'' \<in> set (tables (snd (createTables ?sb)))"
    by (simp_all add: createTables_tables)
  have dist: "distinct (tables s1)" if d: "distinct (tables s)"
  proof (cases "v0 = Some 0")
    case True
    have "distinct (tables (snd (createTables ?sb)))"
      using d by (simp add: createTables_distinct)
    then show ?thesis
      using True eq s1 tb by (simp add: setDatabaseVersion_eq createIndexes_facts)
  next
    case False
    have "version_less v0 DATABASE_VERSION \<Longrightarrow> ''settings'' \<in> set (tables ?sb)"
      using v0 False by (auto simp: getDatabaseVersion_eq split: if_splits)
    then show ?thesis
      using False eq s1 d by (auto simp: setDatabaseVersion_eq)
  qed
  have first: "fst (isFirstLaunch s) = Inr True \<and> fst (isFirstLaunch s1) = Inr False
          \<and> map s_value (filter (\<lambda>r. s_key r = ''db_version'') (settings s1))
              = [string_of_int DATABASE_VERSION]"
    if nokey: "''settings'' \<notin> set (tables s) \<or> ''db_version'' \<notin> set (map s_key (settings s))"
  proof -
    have "filter (\<lambda>r. s_key r = ''db_version'') (settings s) = []"
      if "''db_version'' \<notin> set (map s_key (settings s))"
      using that by (force simp: filter_empty_conv image_iff)
    then have z: "v0 = Some 0"
      using nokey v0 by (auto simp: getDatabaseVersion_eq split: if_splits)
    have a: "fst (isFirstLaunch s) = Inr True"
      using v0 z by (simp add: isFirstLaunch_eq)
    have b: "fst (isFirstLaunch s1) = Inr False"
      using v by (simp add: isFirstLaunch_eq)
    have "settings s1 = filter (\<lambda>r. s_key r \<noteq> ''db_version'') (settings (snd (createTables ?sb)))
            @ [\<lparr>s_key = ''db_version'', s_value = string_of_int DATABASE_VERSION, s_updated_at = now1\<rparr>]"
      using z eq s1 tb by (simp add: setDatabaseVersion_eq createIndexes_facts)
    then have c: "map s_value (filter (\<lambda>r. s_key r = ''db_version'') (settings s1))
              = [string_of_int DATABASE_VERSION]"
      by (simp add: filter_replaced)
    show ?thesis using a b c by simp
  qed
  show ?thesis
    using r1 r2 s2 dist first by simp
qed


text \<open>The fresh database, migrated on one day and again on the next.\<close>

theorem runMigrations_idempotent_witness:
  "tables (snd (runMigrations ''2024-01-02T08:00:00.000Z''
                  (snd (runMigrations ''2024-01-01T08:00:00.000Z'' fresh_database))))
     = [''categories'', ''transactions'', ''budgets'', ''settings'']
   \<and> tables (snd (runMigrations ''2024-01-01T08:00:00.000Z'' fresh_database))
     = [''categories'', ''transactions'', ''budgets'', ''settings'']
   \<and> fst (isFirstLaunch fresh_database) = Inr True
   \<and> fst (isFirstLaunch (snd (runMigrations ''2024-01-01T08:00:00.000Z'' fresh_database))) = Inr False"
proof -
  let ?s1 = "snd (runMigrations ''2024-01-01T08:00:00.000Z'' fresh_database)"
  have e: "tables ?s1 = [''categories'', ''transactions'', ''budgets'', ''settings'']"
    by code_simp
  have h1: "runMigrations ''2024-01-01T08:00:00.000Z'' fresh_database = (Inr (), ?s1)"
    using runMigrations_fst [of "''2024-01-01T08:00:00.000Z''" fresh_database]
    by (simp add: prod_eq_iff)
  have h2: "runMigrations ''2024-01-02T08:00:00.000Z'' ?s1
      = (Inr (), snd (runMigrations ''2024-01-02T08:00:00.000Z'' ?s1))"
    using runMigrations_fst [of "''2024-01-02T08:00:00.000Z''" ?s1]
    by (simp add: prod_eq_iff)
  have h3: "''settings'' \<notin> set (tables fresh_database)"
    by (simp add: fresh_database_def)
  show ?thesis
    using runMigrations_idempotent [OF h1 h2] h3 e by simp
qed

section \<open>Startup\<close>

lemma runMigrations_open [simp]: "runMigrations now (s\<lparr>db_open := True\<rparr>) = runMigrations now s"
  by (simp add: runMigrations_def then_do_def openDatabase_def)

lemma initializeDatabase_eq:
  "initializeDatabase now s =
     (Inr (), (snd (runMigrations now s))
                \<lparr>db_open := True, executed := Suc (executed (snd (runMigrations now s)))\<rparr>)"
proof -
  obtain v where v: "fst (getDatabaseVersion (snd (runMigrations now s))) = Inr v" "v \<noteq> Some 0"
    using runMigrations_version [of now s] by auto
  have "isFirstLaunch (snd (runMigrations now s)) =
          (Inr False, (snd (runMigrations now s))
                \<lparr>db_open := True, executed := Suc (executed (snd (runMigrations now s)))\<rparr>)"
    using v by (simp add: isFirstLaunch_eq) (simp add: getDatabaseVersion_eq)
  then show ?thesis
    by (simp add: initializeDatabase_def then_do_alt openDatabase_def runMigrations_fst ret_def)
qed

text \<open>
  Claim C1. The claim asks that \<open>initializeDatabase\<close> on a fresh store seeds the default
  categories and the default settings once. The source asks \<open>isFirstLaunch\<close> only after
  \<open>runMigrations\<close> has stored the version, so the answer is always false and the seeding
  branch is never taken: on the fresh database the call succeeds, leaves the categories
  table empty and the settings with the \<open>db_version\<close> row alone; on any database the
  categories and settings after \<open>initializeDatabase\<close> are those after \<open>runMigrations\<close>.
\<close>

theorem initializeDatabase_never_seeds:
  "fst (initializeDatabase now fresh_database) = Inr ()
   \<and> categories (snd (initializeDatabase now fresh_database)) = []
   \<and> map s_key (settings (snd (initializeDatabase now fresh_database))) = [''db_version'']
   \<and> categories (snd (initializeDatabase now s)) = categories (snd (runMigrations now s))
   \<and> settings (snd (initializeDatabase now s)) = settings (snd (runMigrations now s))"
proof -
  have "categories (snd (runMigrations now fresh_database)) = []"
    by code_simp
  moreover have "map s_key (settings (snd (runMigrations now fresh_database))) = [''db_version'']"
    by code_simp
  ultimately show ?thesis
    by (simp add: initializeDatabase_eq)
qed

text \<open>
  What the seeding step would add to the migrated fresh database, had it run.
\<close>

lemma seedDefaultCategories_on_migrated:
  "map c_name (categories (snd (seedDefaultCategories now (snd (runMigrations now fresh_database)))))
     = [''Food & Dining'', ''Transport'', ''Shopping'', ''Bills & Utilities'', ''Entertainment'',
        ''Health & Fitness'', ''Education'', ''Groceries'', ''Salary'', ''Other Income'',
        ''Uncategorized'']"
  by code_simp

section \<open>Validation of amounts\<close>

lemma amount_rejected:
  assumes "\<forall>r. amount = JNum r \<longrightarrow> r \<le> 0"
  shows "\<not> truthy amount \<or> \<not> is_number amount \<or> le_zero amount"
  using assms by (cases amount) auto

text \<open>
  Claim C4. An amount that is not a number above zero (a number at or below zero, or a
  value that is no number at all) makes \<open>createTransaction\<close> and \<open>createBudget\<close> reject
  with the validation error of the amount check, and the database is returned exactly as
  it was: no statement has been executed and no row has been written.
\<close>

theorem amount_invariant:
  assumes "\<forall>r. amount = JNum r \<longrightarrow> r \<le> 0"
  shows "createTransaction now (td\<lparr>td_amount := amount\<rparr>) s
           = (Inl (ValidationError ''Amount must be a number greater than 0''), s)
       \<and> createBudget now (bd\<lparr>bd_amount := amount\<rparr>) s
           = (Inl (ValidationError ''Amount must be a number greater than 0''), s)"
proof -
  have bad: "\<not> truthy amount \<or> \<not> is_number amount \<or> le_zero amount"
    using assms by (rule amount_rejected)
  have t: "validateTransaction (td\<lparr>td_amount := amount\<rparr>) s
             = (Inl (ValidationError ''Amount must be a number greater than 0''), s)"
    using bad by (auto simp: validateTransaction_def throw_def)
  have b: "validateBudget (bd\<lparr>bd_amount := amount\<rparr>) s
             = (Inl (ValidationError ''Amount must be a number greater than 0''), s)"
    using bad by (auto simp: validateBudget_def throw_def)
  show ?thesis
    using t b by (simp add: createTransaction_def createBudget_def then_do_def)
qed

text \<open>A negative amount, on the fresh database: not one statement is executed.\<close>

theorem amount_invariant_witness:
  "createTransaction ''2024-03-05T10:00:00.000Z''
      \<lparr>td_amount = JNum (- 5), td_description = Some ''Lunch'', td_type = Some ''expense'',
       td_date = Some ''2024-03-05'', td_category_id = None, td_is_manually_set = False,
       td_source = None, td_raw_data = None\<rparr> fresh_database
     = (Inl (ValidationError ''Amount must be a number greater than 0''), fresh_database)
   \<and> createBudget ''2024-03-05T10:00:00.000Z''
      \<lparr>bd_amount = JNum (- 5), bd_category_id = Some 1, bd_period = Some ''monthly'',
       bd_start_date = Some ''2024-03-01'', bd_end_date = None\<rparr> fresh_database
     = (Inl (ValidationError ''Amount must be a number greater than 0''), fresh_database)"
proof -
  have h: "\<forall>r. JNum (- 5) = JNum r \<longrightarrow> r \<le> 0"
    by simp
  show ?thesis
    using amount_invariant [OF h, of "''2024-03-05T10:00:00.000Z''"
      "\<lparr>td_amount = JNum 1, td_description = Some ''Lunch'', td_type = Some ''expense'',
       td_date = Some ''2024-03-05'', td_category_id = None, td_is_manually_set = False,
       td_source = None, td_raw_data = None\<rparr>" fresh_database
      "\<lparr>bd_amount = JNum 1, bd_category_id = Some 1, bd_period = Some ''monthly'',
       bd_start_date = Some ''2024-03-01'', bd_end_date = None\<rparr>"]
    by simp
qed

section \<open>Updating a transaction\<close>

lemma filter_map_update:
  assumes "\<And>x. k (g x) = k x"
  shows "filter (\<lambda>x. k x = i) (map (\<lambda>x. if k x = i then g x else x) xs)
           = map g (filter (\<lambda>x. k x = i) xs)"
  using assms by (induction xs) auto

lemma getTransactionById_eq:
  assumes "''transactions'' \<in> set (tables s)" and "''categories'' \<in> set (tables s)"
  shows "getTransactionById i s =
     (Inr (case filter (\<lambda>t. t_id t = i) (transactions s) of
             [] \<Rightarrow> None
           | t # _ \<Rightarrow> Some (t, find (\<lambda>c. Some (c_id c) = t_category_id t) (categories s))),
      s\<lparr>db_open := True, executed := Suc (executed s)\<rparr>)"
  using assms by (simp add: getTransactionById_def executeSql_ready split: list.splits)

text \<open>
  Claim C10. For a transaction that exists and a payload that passes validation,
  \<open>updateTransaction\<close> succeeds and returns the stored row, in which the date, the source
  and the raw data are those of the row before the update whenever the payload omits them
  (or gives them falsy), while the category is \<open>null\<close> whenever the payload omits the
  category id (or gives it falsy), whatever category the row had; a category id that is
  given is the one stored.
\<close>

theorem updateTransaction_asymmetry:
  assumes tbl: "''transactions'' \<in> set (tables s)" "''categories'' \<in> set (tables s)"
    and valid: "fst (validateTransaction data s) = Inr ()"
    and existing: "filter (\<lambda>t. t_id t = i) (transactions s) = old # rest"
  shows "\<exists>new c s'. updateTransaction now i data s = (Inr (Some (new, c)), s')
      \<and> new \<in> set (transactions s') \<and> t_id new = i
      \<and> (\<not> truthy_str (td_date data) \<longrightarrow> t_date new = t_date old)
      \<and> (\<not> truthy_str (td_source data) \<longrightarrow> t_source new = t_source old)
      \<and> (\<not> truthy_str (td_raw_data data) \<longrightarrow> t_raw_data new = t_raw_data old)
      \<and> (\<not> truthy_id (td_category_id data) \<longrightarrow> t_category_id new = None)
      \<and> (truthy_id (td_category_id data) \<longrightarrow> t_category_id new = td_category_id data)"
proof -
  let ?s1 = "s\<lparr>db_open := True, executed := Suc (executed s)\<rparr>"
  define g :: "transaction \<Rightarrow> transaction" where "g = (\<lambda>t. t\<lparr>t_amount := num_of (td_amount data),
                  t_description := trim (the (td_description data)),
                  t_date := or_str (td_date data) (t_date old),
                  t_type := the (td_type data),
                  t_category_id := id_or_null (td_category_id data),
                  t_is_manually_set := (if td_is_manually_set data then 1 else 0),
                  t_source := or_stored (td_source data) (t_source old),
                  t_raw_data := or_stored (td_raw_data data) (t_raw_data old),
                  t_updated_at := now\<rparr>)"
  define s2 where "s2 = s\<lparr>db_open := True, executed := Suc (Suc (executed s)),
               transactions := map (\<lambda>t. if t_id t = i then g t else t) (transactions s)\<rparr>"
  have gid: "t_id (g t) = t_id t" for t
    by (simp add: g_def)
  have tbl2: "''transactions'' \<in> set (tables s2)" "''categories'' \<in> set (tables s2)"
    using tbl by (simp_all add: s2_def)
  have v: "validateTransaction data s = (Inr (), s)"
    using valid by (auto simp: validateTransaction_def throw_def ret_def split: if_splits)
  have g1: "getTransactionById i s
      = (Inr (Some (old, find (\<lambda>c. Some (c_id c) = t_category_id old) (categories s))), ?s1)"
    using tbl existing by (simp add: getTransactionById_eq)
  have u: "update_transaction_row i (num_of (td_amount data)) (trim (the (td_description data)))
             (or_str (td_date data) (t_date old)) (the (td_type data))
             (id_or_null (td_category_id data)) (if td_is_manually_set data then 1 else 0)
             (or_stored (td_source data) (t_source old))
             (or_stored (td_raw_data data) (t_raw_data old)) now ?s1 = (Inr (), s2)"
    using tbl by (simp add: update_transaction_row_def executeSql_ready s2_def g_def)
  have f: "filter (\<lambda>t. t_id t = i) (transactions s2) = g old # map g rest"
    using existing filter_map_update [of t_id g i "transactions s", OF gid]
    by (simp add: s2_def)
  have g2: "getTransactionById i s2
      = (Inr (Some (g old, find (\<lambda>c. Some (c_id c) = t_category_id (g old)) (categories s2))),
         s2\<lparr>db_open := True, executed := Suc (executed s2)\<rparr>)"
    using tbl2 f by (simp add: getTransactionById_eq)
  have res: "updateTransaction now i data s
      = (Inr (Some (g old, find (\<lambda>c. Some (c_id c) = t_category_id (g old)) (categories s2))),
         s2\<lparr>db_open := True, executed := Suc (executed s2)\<rparr>)"
    unfolding updateTransaction_def
    by (simp add: then_do_alt v g1 u g2)
  have "g old \<in> set (filter (\<lambda>t. t_id t = i) (transactions s2))"
    by (simp only: f list.set_intros)
  then have mem: "g old \<in> set (transactions (s2\<lparr>db_open := True, executed := Suc (executed s2)\<rparr>))"
    by simp
  have "old \<in> set (filter (\<lambda>t. t_id t = i) (transactions s))"
    by (simp only: existing list.set_intros)
  then have idn: "t_id (g old) = i"
    by (simp add: gid)
  have fields: "t_date (g old) = or_str (td_date data) (t_date old)"
      "t_source (g old) = or_stored (td_source data) (t_source old)"
      "t_raw_data (g old) = or_stored (td_raw_data data) (t_raw_data old)"
      "t_category_id (g old) = id_or_null (td_category_id data)"
    by (simp_all add: g_def)
  show ?thesis
    by (rule exI [where x = "g old"],
        rule exI [where x = "find (\<lambda>c. Some (c_id c) = t_category_id (g old)) (categories s2)"],
        rule exI [where x = "s2\<lparr>db_open := True, executed := Suc (executed s2)\<rparr>"])
       (use res mem idn fields in \<open>simp add: or_str_def or_stored_def id_or_null_def\<close>)
qed

text \<open>
  The dinner of the example database, in category 1, updated with a payload that names no
  date, source, raw data or category: it keeps the first three and loses the category.
\<close>

theorem updateTransaction_asymmetry_witness:
  "\<exists>new c s'. updateTransaction ''2024-04-01T12:00:00.000Z'' 1
       \<lparr>td_amount = JNum 175, td_description = Some ''Dinner for two'', td_type = Some ''expense'',
        td_date = None, td_category_id = None, td_is_manually_set = True,
        td_source = None, td_raw_data = None\<rparr> example_database = (Inr (Some (new, c)), s')
     \<and> new \<in> set (transactions s') \<and> t_id new = 1
     \<and> t_date new = ''2024-03-03'' \<and> t_source new = Some ''sms'' \<and> t_raw_data new = Some ''raw''
     \<and> t_category_id new = None"
proof -
  let ?data = "\<lparr>td_amount = JNum 175, td_description = Some ''Dinner for two'',
        td_type = Some ''expense'', td_date = None, td_category_id = None,
        td_is_manually_set = True, td_source = None, td_raw_data = None\<rparr>"
  have t: "''transactions'' \<in> set (tables example_database)"
      "''categories'' \<in> set (tables example_database)"
    by (simp_all add: example_database_def)
  have v: "fst (validateTransaction ?data example_database) = Inr ()"
    by (simp add: validateTransaction_def ret_def trim_def is_space_def)
  have e: "filter (\<lambda>t. t_id t = 1) (transactions example_database)
      = example_transaction 1 150 ''Dinner'' ''2024-03-03'' ''expense'' (Some 1) # []"
    by (simp add: example_database_def example_transaction_def)
  show ?thesis
    using updateTransaction_asymmetry [OF t v e, of "''2024-04-01T12:00:00.000Z''"]
    by (simp add: example_transaction_def)
qed

section \<open>Summary of a date window\<close>

lemma or_zero_sql_sum: "or_zero (sql_sum xs) = sum_list xs"
  by (simp add: sql_sum_def)





section \<open>Deleting a category\<close>

lemma getCategoryById_eq:
  assumes "''categories'' \<in> set (tables s)"
  shows "getCategoryById i s =
     (Inr (case filter (\<lambda>c. c_id c = i) (categories s) of [] \<Rightarrow> None | c # _ \<Rightarrow> Some c),
      s\<lparr>db_open := True, executed := Suc (executed s)\<rparr>)"
  using assms by (simp add: getCategoryById_def executeSql_ready split: list.splits)

lemma getCategoryById_found:
  assumes "''categories'' \<in> set (tables s)"
  shows "(fst (getCategoryById i s) = Inr None) = (i \<notin> set (map c_id (categories s)))"
proof -
  have "(filter (\<lambda>c. c_id c = i) (categories s) = []) = (i \<notin> set (map c_id (categories s)))"
    by (auto simp: filter_empty_conv)
  then show ?thesis
    using assms by (cases "filter (\<lambda>c. c_id c = i) (categories s)") (simp_all add: getCategoryById_eq)
qed

lemma getCategoryById_fst:
  assumes "''categories'' \<in> set (tables s)"
  shows "\<exists>r. fst (getCategoryById i s) = Inr r"
  using assms by (simp add: getCategoryById_eq)

lemma deleteCategory_missing:
  assumes "''categories'' \<in> set (tables s)" and "i \<notin> set (map c_id (categories s))"
  shows "fst (deleteCategory i s)
           = Inl (NotFoundError (''Category with id '' @ string_of_int i @ '' not found''))"
  using assms getCategoryById_found [of s i]
  by (simp add: deleteCategory_def then_do_alt throw_def)

text \<open>
  Claim C5. On a database with the three tables, for a category that exists:
  when transactions refer to it, \<open>deleteCategory\<close> rejects with the constraint error that
  names their number; when no transaction but budgets refer to it, it rejects with the
  constraint error that names the number of budgets; in both cases the database comes
  back with every row in place (only the statement count has moved), so nothing is
  deleted and nothing cascades. When nothing refers to it, the call succeeds and removes
  the rows of that id from the categories table and nothing else, and a second delete of
  the same id rejects with the not-found error that names the id.
\<close>

theorem deleteCategory_blocking:
  assumes tbl: "''categories'' \<in> set (tables s)" "''transactions'' \<in> set (tables s)"
      "''budgets'' \<in> set (tables s)"
    and existing: "i \<in> set (map c_id (categories s))"
    and nt: "nt = length (filter (\<lambda>t. t_category_id t = Some i) (transactions s))"
    and nb: "nb = length (filter (\<lambda>b. b_category_id b = i) (budgets s))"
  shows "(0 < nt \<longrightarrow>
            deleteCategory i s =
              (Inl (ConstraintError (''Cannot delete category with '' @ string_of_nat nt
                      @ '' associated transaction(s)'')),
               s\<lparr>db_open := True, executed := executed s + 2\<rparr>))
       \<and> (nt = 0 \<and> 0 < nb \<longrightarrow>
            deleteCategory i s =
              (Inl (ConstraintError (''Cannot delete category with '' @ string_of_nat nb
                      @ '' associated budget(s)'')),
               s\<lparr>db_open := True, executed := executed s + 3\<rparr>))
       \<and> (nt = 0 \<and> nb = 0 \<longrightarrow>
            deleteCategory i s =
              (Inr (), s\<lparr>db_open := True, executed := executed s + 4,
                         categories := filter (\<lambda>c. c_id c \<noteq> i) (categories s)\<rparr>)
            \<and> fst (deleteCategory i (snd (deleteCategory i s)))
                = Inl (NotFoundError (''Category with id '' @ string_of_int i @ '' not found'')))"
proof -
  let ?s1 = "s\<lparr>db_open := True, executed := Suc (executed s)\<rparr>"
  let ?s2 = "s\<lparr>db_open := True, executed := Suc (Suc (executed s))\<rparr>"
  let ?s3 = "s\<lparr>db_open := True, executed := Suc (Suc (Suc (executed s)))\<rparr>"
  let ?s4 = "s\<lparr>db_open := True, executed := Suc (Suc (Suc (Suc (executed s)))),
               categories := filter (\<lambda>c. c_id c \<noteq> i) (categories s)\<rparr>"
  obtain c where g: "getCategoryById i s = (Inr (Some c), ?s1)"
  proof -
    have "fst (getCategoryById i s) \<noteq> Inr None"
      using getCategoryById_found [OF tbl(1), of i] existing by simp
    then show ?thesis
      using that tbl(1) by (auto simp: getCategoryById_eq split: list.splits)
  qed
  have ct: "count_category_transactions i ?s1 = (Inr nt, ?s2)"
    using tbl nt by (simp add: count_category_transactions_def executeSql_ready)
  have cb: "count_category_budgets i ?s2 = (Inr nb, ?s3)"
    using tbl nb by (simp add: count_category_budgets_def executeSql_ready)
  have d: "delete_category_row i ?s3 = (Inr (), ?s4)"
    using tbl by (simp add: delete_category_row_def executeSql_ready)
  have a: "deleteCategory i s =
      (Inl (ConstraintError (''Cannot delete category with '' @ string_of_nat nt
              @ '' associated transaction(s)'')), ?s2)" if "0 < nt"
    using that by (simp add: deleteCategory_def then_do_alt g ct throw_def)
  have b: "deleteCategory i s =
      (Inl (ConstraintError (''Cannot delete category with '' @ string_of_nat nb
              @ '' associated budget(s)'')), ?s3)" if "nt = 0" "0 < nb"
    using that by (simp add: deleteCategory_def then_do_alt g ct cb throw_def)
  have c: "deleteCategory i s = (Inr (), ?s4)" if "nt = 0" "nb = 0"
    using that by (simp add: deleteCategory_def then_do_alt g ct cb d)
  have again: "fst (deleteCategory i ?s4)
      = Inl (NotFoundError (''Category with id '' @ string_of_int i @ '' not found''))"
  proof (rule deleteCategory_missing)
    show "''categories'' \<in> set (tables ?s4)" using tbl by simp
    show "i \<notin> set (map c_id (categories ?s4))" by auto
  qed
  show ?thesis
    using a b c again by (simp add: numeral_2_eq_2 numeral_3_eq_3 eval_nat_numeral)
qed


text \<open>
  The example database: category 1 has two transactions (and a budget), category 4 has a
  budget only, category 3 has nothing and can be deleted once.
\<close>

theorem deleteCategory_blocking_witness:
  "fst (deleteCategory 1 example_database)
     = Inl (ConstraintError ''Cannot delete category with 2 associated transaction(s)'')
   \<and> categories (snd (deleteCategory 1 example_database)) = categories example_database
   \<and> fst (deleteCategory 4 example_database)
     = Inl (ConstraintError ''Cannot delete category with 1 associated budget(s)'')
   \<and> categories (snd (deleteCategory 4 example_database)) = categories example_database
   \<and> fst (deleteCategory 3 example_database) = Inr ()
   \<and> map c_id (categories (snd (deleteCategory 3 example_database))) = [1, 2, 4]
   \<and> transactions (snd (deleteCategory 3 example_database)) = transactions example_database
   \<and> budgets (snd (deleteCategory 3 example_database)) = budgets example_database
   \<and> fst (deleteCategory 3 (snd (deleteCategory 3 example_database)))
     = Inl (NotFoundError ''Category with id 3 not found'')"
proof -
  have t: "''categories'' \<in> set (tables example_database)"
      "''transactions'' \<in> set (tables example_database)"
      "''budgets'' \<in> set (tables example_database)"
    by (simp_all add: example_database_def)
  have e: "1 \<in> set (map c_id (categories example_database))"
      "4 \<in> set (map c_id (categories example_database))"
      "3 \<in> set (map c_id (categories example_database))"
    by (simp_all add: example_database_def)
  have n1: "2 = length (filter (\<lambda>t. t_category_id t = Some 1) (transactions example_database))"
    and n4: "0 = length (filter (\<lambda>t. t_category_id t = Some 4) (transactions example_database))"
    and n3: "0 = length (filter (\<lambda>t. t_category_id t = Some 3) (transactions example_database))"
    by (simp_all add: example_database_def example_transaction_def)
  have b1: "1 = length (filter (\<lambda>b. b_category_id b = 1) (budgets example_database))"
    and b4: "1 = length (filter (\<lambda>b. b_category_id b = 4) (budgets example_database))"
    and b3: "0 = length (filter (\<lambda>b. b_category_id b = 3) (budgets example_database))"
    by (simp_all add: example_database_def)
  have s: "string_of_nat 2 = ''2''" "string_of_nat 1 = ''1''" "string_of_int 3 = ''3''"
    by (simp_all add: string_of_nat.simps string_of_int_def)
  have c: "map c_id (filter (\<lambda>c. c_id c \<noteq> 3) (categories example_database)) = [1, 2, 4]"
    by (simp add: example_database_def)
  note d3 = deleteCategory_blocking [OF t e(3) n3 b3]
  have d3a: "deleteCategory 3 example_database =
      (Inr (), example_database\<lparr>db_open := True, executed := executed example_database + 4,
                 categories := filter (\<lambda>c. c_id c \<noteq> 3) (categories example_database)\<rparr>)"
    using d3 by simp
  have d3b: "fst (deleteCategory 3 (snd (deleteCategory 3 example_database)))
      = Inl (NotFoundError ''Category with id 3 not found'')"
    using d3 s by auto
  have d1: "deleteCategory 1 example_database =
      (Inl (ConstraintError ''Cannot delete category with 2 associated transaction(s)''),
       example_database\<lparr>db_open := True, executed := executed example_database + 2\<rparr>)"
    using deleteCategory_blocking [OF t e(1) n1 b1] s by simp
  have d4: "deleteCategory 4 example_database =
      (Inl (ConstraintError ''Cannot delete category with 1 associated budget(s)''),
       example_database\<lparr>db_open := True, executed := executed example_database + 3\<rparr>)"
    using deleteCategory_blocking [OF t e(2) n4 b4] s by simp
  show ?thesis
    by (simp add: d1 d4 d3b) (simp add: d3a c)
qed

section \<open>Budget progress\<close>

lemma math_round_of_int: "math_round (of_int k) = of_int k"
proof -
  have "\<lfloor>(of_int k :: rat) + 1 / 2\<rfloor> = k"
    by (rule floor_unique) simp_all
  then show ?thesis by (simp add: math_round_def)
qed

lemma round2_hundredths: "round2 (of_int k / 100) = of_int k / 100"
  by (simp add: round2_def math_round_of_int)



lemma getBudgetById_snd:
  "snd (getBudgetById i s) = s\<lparr>db_open := True, executed := Suc (executed s)\<rparr>"
  by (simp add: getBudgetById_def executeSql_def Let_def split: option.splits)

lemma select_spent_eq:
  assumes "''transactions'' \<in> set (tables s)"
  shows "select_spent cid a b s =
     (Inr (sum_list (map t_amount
             (filter (\<lambda>t. t_category_id t = Some cid \<and> t_type t = ''expense''
                           \<and> a \<le> t_date t \<and> t_date t \<le> b) (transactions s)))),
      s\<lparr>db_open := True, executed := Suc (executed s)\<rparr>)"
  using assms by (simp add: select_spent_def executeSql_ready or_zero_sql_sum)

lemma getBudgetProgress_eq:
  assumes tbl: "''transactions'' \<in> set (tables s)"
    and found: "fst (getBudgetById i s) = Inr (Some (b, c))"
  shows "fst (getBudgetProgress now i startDate endDate s) =
     Inr \<lparr>budget_id = i, budget_amount = b_amount b,
          spent = sum_list (map t_amount
             (filter (\<lambda>t. t_category_id t = Some (b_category_id b) \<and> t_type t = ''expense''
                           \<and> or_str startDate (b_start_date b) \<le> t_date t
                           \<and> t_date t \<le> or_str endDate (today now)) (transactions s))),
          remaining = b_amount b - sum_list (map t_amount
             (filter (\<lambda>t. t_category_id t = Some (b_category_id b) \<and> t_type t = ''expense''
                           \<and> or_str startDate (b_start_date b) \<le> t_date t
                           \<and> t_date t \<le> or_str endDate (today now)) (transactions s))),
          percentage = round2 (if b_amount b > 0 then
             sum_list (map t_amount
             (filter (\<lambda>t. t_category_id t = Some (b_category_id b) \<and> t_type t = ''expense''
                           \<and> or_str startDate (b_start_date b) \<le> t_date t
                           \<and> t_date t \<le> or_str endDate (today now)) (transactions s)))
               / b_amount b * 100 else 0),
          is_exceeded = (sum_list (map t_amount
             (filter (\<lambda>t. t_category_id t = Some (b_category_id b) \<and> t_type t = ''expense''
                           \<and> or_str startDate (b_start_date b) \<le> t_date t
                           \<and> t_date t \<le> or_str endDate (today now)) (transactions s)))
             > b_amount b),
          period_start = or_str startDate (b_start_date b),
          period_end = or_str endDate (today now)\<rparr>"
proof -
  let ?s1 = "s\<lparr>db_open := True, executed := Suc (executed s)\<rparr>"
  have t1: "''transactions'' \<in> set (tables ?s1)"
    using tbl by simp
  show ?thesis
    using found
    by (simp add: getBudgetProgress_def then_do_alt getBudgetById_snd select_spent_eq [OF t1]
         ret_def Let_def)
qed

lemma getBudgetProgress_result:
  assumes "fst (getBudgetProgress now i startDate endDate s) = Inr p"
  shows "percentage p = round2 (if 0 < budget_amount p then spent p / budget_amount p * 100 else 0)
       \<and> remaining p = budget_amount p - spent p
       \<and> is_exceeded p = (budget_amount p < spent p)"
  using assms
  by (auto simp: getBudgetProgress_def then_do_def throw_def ret_def Let_def
        split: prod.splits sum.splits option.splits)




subsection \<open>Status thresholds\<close>

text \<open>
  Claim C3. The status of a progress result, derived from its percentage, is on-track
  below 80, warning from 80 and below 100, and exceeded from 100. Through the percentage
  that \<open>getBudgetProgress\<close> computes for a budget with a positive amount: spending 79.99
  percent of the amount gives percentage 79.99 and on-track, spending exactly 80 percent
  gives percentage 80 and warning, spending exactly the amount gives percentage 100 and
  exceeded.
\<close>

theorem budgetStatus_thresholds:
  assumes "fst (getBudgetProgress now budgetId startDate endDate s) = Inr p"
    and "0 < budget_amount p"
  shows "(percentage p < 80 \<longrightarrow> budgetStatus (percentage p) = OnTrack)
       \<and> (80 \<le> percentage p \<and> percentage p < 100 \<longrightarrow> budgetStatus (percentage p) = Warning)
       \<and> (100 \<le> percentage p \<longrightarrow> budgetStatus (percentage p) = Exceeded)
       \<and> (spent p = budget_amount p * (7999 / 10000) \<longrightarrow>
            percentage p = 7999 / 100 \<and> budgetStatus (percentage p) = OnTrack)
       \<and> (spent p = budget_amount p * (80 / 100) \<longrightarrow>
            percentage p = 80 \<and> budgetStatus (percentage p) = Warning)
       \<and> (spent p = budget_amount p \<longrightarrow>
            percentage p = 100 \<and> budgetStatus (percentage p) = Exceeded)"
proof -
  have pc: "percentage p = round2 (spent p / budget_amount p * 100)"
    using getBudgetProgress_result [OF assms(1)] assms(2) by simp
  have nz: "budget_amount p \<noteq> 0"
    using assms(2) by simp
  have a: "percentage p = 7999 / 100" if "spent p = budget_amount p * (7999 / 10000)"
    using pc nz that round2_hundredths [of 7999] by simp
  have b: "percentage p = 80" if "spent p = budget_amount p * (80 / 100)"
    using pc nz that round2_hundredths [of 8000] by simp
  have c: "percentage p = 100" if "spent p = budget_amount p"
    using pc nz that round2_hundredths [of 10000] by simp
  show ?thesis
    using a b c by (auto simp: budgetStatus_def)
qed

text \<open>
  The first budget of the example database (500 on category 1) with one expense of
  399.95, with the expenses 150 and 250 of the example, and with one expense of 500.
\<close>

theorem budgetStatus_thresholds_witness:
  "(\<exists>p. fst (getBudgetProgress ''2024-04-02T07:30:00.000Z'' 1 None (Some ''2024-03-31'')
        (example_database\<lparr>transactions :=
           [example_transaction 1 (7999 / 20) ''Dinner'' ''2024-03-03'' ''expense'' (Some 1)]\<rparr>))
          = Inr p
        \<and> percentage p = 7999 / 100 \<and> budgetStatus (percentage p) = OnTrack)
   \<and> (\<exists>p. fst (getBudgetProgress ''2024-04-02T07:30:00.000Z'' 1 None (Some ''2024-03-31'')
        example_database) = Inr p
        \<and> percentage p = 80 \<and> budgetStatus (percentage p) = Warning)
   \<and> (\<exists>p. fst (getBudgetProgress ''2024-04-02T07:30:00.000Z'' 1 None (Some ''2024-03-31'')
        (example_database\<lparr>transactions :=
           [example_transaction 1 500 ''Dinner'' ''2024-03-03'' ''expense'' (Some 1)]\<rparr>))
          = Inr p
        \<and> percentage p = 100 \<and> budgetStatus (percentage p) = Exceeded)"
proof -
  let ?now = "''2024-04-02T07:30:00.000Z''"
  have progress: "\<exists>p. fst (getBudgetProgress ?now 1 None (Some ''2024-03-31'')
        (example_database\<lparr>transactions := ts\<rparr>)) = Inr p \<and> budget_amount p = 500
      \<and> spent p = sum_list (map t_amount
            (filter (\<lambda>t. t_category_id t = Some 1 \<and> t_type t = ''expense''
                          \<and> ''2024-03-01'' \<le> t_date t \<and> t_date t \<le> ''2024-03-31'') ts))"
    for ts
  proof -
    have t: "''transactions'' \<in> set (tables (example_database\<lparr>transactions := ts\<rparr>))"
      by (simp add: example_database_def)
    have f: "fst (getBudgetById 1 (example_database\<lparr>transactions := ts\<rparr>))
        = Inr (Some (hd (budgets example_database), hd (categories example_database)))"
      by (simp add: getBudgetById_def executeSql_def example_database_def)
    show ?thesis
      unfolding getBudgetProgress_eq [OF t f]
      by (simp add: example_database_def or_str_def)
  qed
  obtain p1 where p1: "fst (getBudgetProgress ?now 1 None (Some ''2024-03-31'')
        (example_database\<lparr>transactions :=
           [example_transaction 1 (7999 / 20) ''Dinner'' ''2024-03-03'' ''expense'' (Some 1)]\<rparr>))
          = Inr p1" "budget_amount p1 = 500" "spent p1 = 7999 / 20"
    using progress [of "[example_transaction 1 (7999 / 20) ''Dinner'' ''2024-03-03'' ''expense'' (Some 1)]"]
    by (auto simp: example_transaction_def)
  obtain p2 where p2: "fst (getBudgetProgress ?now 1 None (Some ''2024-03-31'')
        example_database) = Inr p2" "budget_amount p2 = 500" "spent p2 = 400"
    using progress [of "transactions example_database"]
    by (auto simp: example_transaction_def example_database_def)
  obtain p3 where p3: "fst (getBudgetProgress ?now 1 None (Some ''2024-03-31'')
        (example_database\<lparr>transactions :=
           [example_transaction 1 500 ''Dinner'' ''2024-03-03'' ''expense'' (Some 1)]\<rparr>))
          = Inr p3" "budget_amount p3 = 500" "spent p3 = 500"
    using progress [of "[example_transaction 1 500 ''Dinner'' ''2024-03-03'' ''expense'' (Some 1)]"]
    by (auto simp: example_transaction_def)
  have w1: "percentage p1 = 7999 / 100 \<and> budgetStatus (percentage p1) = OnTrack"
    using budgetStatus_thresholds [OF p1(1)] p1(2,3) by auto
  have w2: "percentage p2 = 80 \<and> budgetStatus (percentage p2) = Warning"
    using budgetStatus_thresholds [OF p2(1)] p2(2,3) by auto
  have w3: "percentage p3 = 100 \<and> budgetStatus (percentage p3) = Exceeded"
    using budgetStatus_thresholds [OF p3(1)] p3(2,3) by auto
  show ?thesis
    using p1(1) p2(1) p3(1) w1 w2 w3 by blast
qed

section \<open>Validation of a budget's dates\<close>












subsection \<open>Stored budget amounts are positive\<close>

lemma validateBudget_amount:
  assumes "fst (validateBudget data s) = Inr ()"
  shows "0 < num_of (bd_amount data)"
proof -
  have "truthy (bd_amount data) \<and> is_number (bd_amount data) \<and> \<not> le_zero (bd_amount data)"
    using assms by (auto simp: validateBudget_def throw_def split: if_splits)
  then show ?thesis
    by (cases "bd_amount data") auto
qed

lemma validateBudget_snd: "snd (validateBudget data s) = s"
  by (simp add: validateBudget_def throw_def ret_def)

lemma executeSql_budgets:
  assumes "\<And>s0. budgets (snd (stmt s0)) = budgets s0"
  shows "budgets (snd (executeSql needs stmt s)) = budgets s"
  using assms by (simp add: executeSql_def Let_def split: option.splits)

lemma select_category_ids_budgets: "budgets (snd (select_category_ids cid s)) = budgets s"
  by (simp add: select_category_ids_def executeSql_budgets)

lemma getBudgetById_budgets: "budgets (snd (getBudgetById i s)) = budgets s"
  by (simp add: getBudgetById_snd)

lemma insert_budget_budgets:
  "budgets (snd (insert_budget row s)) = budgets s
   \<or> (\<exists>i. budgets (snd (insert_budget row s)) = budgets s @ [row\<lparr>b_id := i\<rparr>])"
  by (auto simp: insert_budget_def executeSql_def Let_def split: option.splits)

lemma createBudget_keeps_positive:
  assumes "list_all (\<lambda>b. 0 < b_amount b) (budgets s)"
  shows "list_all (\<lambda>b. 0 < b_amount b) (budgets (snd (createBudget now data s)))"
proof (cases "fst (validateBudget data s)")
  case (Inl e)
  then show ?thesis
    using assms by (simp add: createBudget_def then_do_alt validateBudget_snd)
next
  case (Inr u)
  then have pos: "0 < num_of (bd_amount data)"
    using validateBudget_amount [of data s] by simp
  let ?row = "\<lparr>b_id = 0, b_category_id = the (bd_category_id data),
                b_amount = num_of (bd_amount data), b_period = the (bd_period data),
                b_start_date = the (bd_start_date data),
                b_end_date = or_null (bd_end_date data),
                b_created_at = now, b_updated_at = now\<rparr>"
  let ?s1 = "snd (select_category_ids (the (bd_category_id data)) s)"
  have ins: "list_all (\<lambda>b. 0 < b_amount b) (budgets (snd (insert_budget ?row ?s1)))"
    using insert_budget_budgets [of ?row ?s1] assms pos
    by (auto simp: select_category_ids_budgets)
  show ?thesis
    using Inr assms ins
    by (simp add: createBudget_def then_do_alt validateBudget_snd Let_def throw_def ret_def
          select_category_ids_budgets split: sum.splits)
qed

lemma update_budget_row_budgets:
  "budgets (snd (update_budget_row i cid amount per sd ed now s)) = budgets s
   \<or> budgets (snd (update_budget_row i cid amount per sd ed now s)) =
        map (\<lambda>b. if b_id b = i then
                    b\<lparr>b_category_id := cid, b_amount := amount, b_period := per,
                      b_start_date := sd, b_end_date := ed, b_updated_at := now\<rparr>
                  else b) (budgets s)"
  by (auto simp: update_budget_row_def executeSql_def Let_def split: option.splits)

lemma updateBudget_keeps_positive:
  assumes "list_all (\<lambda>b. 0 < b_amount b) (budgets s)"
  shows "list_all (\<lambda>b. 0 < b_amount b) (budgets (snd (updateBudget now i data s)))"
proof (cases "fst (validateBudget data s)")
  case (Inl e)
  then show ?thesis
    using assms by (simp add: updateBudget_def then_do_alt validateBudget_snd)
next
  case (Inr u)
  then have pos: "0 < num_of (bd_amount data)"
    using validateBudget_amount [of data s] by simp
  let ?s2 = "snd (select_category_ids (the (bd_category_id data)) (snd (getBudgetById i s)))"
  let ?s3 = "snd (update_budget_row i (the (bd_category_id data)) (num_of (bd_amount data))
                (the (bd_period data)) (the (bd_start_date data)) (or_null (bd_end_date data))
                now ?s2)"
  have b2: "budgets ?s2 = budgets s"
    by (simp add: select_category_ids_budgets getBudgetById_budgets)
  have upd: "list_all (\<lambda>b. 0 < b_amount b) (budgets ?s3)"
    using update_budget_row_budgets [of i "the (bd_category_id data)" "num_of (bd_amount data)"
        "the (bd_period data)" "the (bd_start_date data)" "or_null (bd_end_date data)" now ?s2]
      assms pos b2
    by (auto simp: list_all_iff)
  show ?thesis
    using Inr assms upd b2
    by (simp add: updateBudget_def then_do_alt validateBudget_snd throw_def
          getBudgetById_budgets split: sum.splits)
qed

section \<open>Spending by category\<close>

lemma category_row_unique:
  assumes "distinct (map c_id cats)" and "c \<in> set cats"
  shows "filter (\<lambda>c'. c_id c' = c_id c) cats = [c]"
  using assms
proof (induction cats)
  case Nil
  then show ?case by simp
next
  case (Cons a cats)
  show ?case
  proof (cases "a = c")
    case True
    have "filter (\<lambda>c'. c_id c' = c_id c) cats = []"
      using Cons.prems(1) True by (force simp: filter_empty_conv image_iff)
    then show ?thesis using True by simp
  next
    case False
    then have "c \<in> set cats" using Cons.prems(2) by simp
    moreover have "c_id a \<noteq> c_id c"
      using Cons.prems(1) calculation by (force simp: image_iff)
    ultimately show ?thesis using Cons by simp
  qed
qed

lemma same_key_same_row:
  assumes "distinct (map c_id cats)" and "c \<in> set cats" and "c' \<in> set cats"
    and "group_key c' = group_key c"
  shows "c' = c"
proof -
  have "c_id c' = c_id c"
    using assms(4) by (simp add: group_key_def)
  then have "c' \<in> set (filter (\<lambda>x. c_id x = c_id c) cats)"
    using assms(3) by simp
  then show ?thesis
    using category_row_unique [OF assms(1,2)] by simp
qed








subsection \<open>Category ids stay unique\<close>

lemma fold_max_ge_start: "seq \<le> fold max ids (seq::int)"
  by (induction ids arbitrary: seq) (auto intro: order_trans [OF max.cobounded2])

lemma fold_max_ge_member: "x \<in> set ids \<Longrightarrow> x \<le> fold max ids (seq::int)"
proof (induction ids arbitrary: seq)
  case Nil
  then show ?case by simp
next
  case (Cons a ids)
  show ?case
  proof (cases "x = a")
    case True
    have "a \<le> max a seq" by simp
    also have "\<dots> \<le> fold max ids (max a seq)" by (rule fold_max_ge_start)
    finally show ?thesis using True by simp
  next
    case False
    then show ?thesis using Cons by simp
  qed
qed

lemma next_rowid_fresh: "next_rowid seq ids \<notin> set ids"
proof
  assume "next_rowid seq ids \<in> set ids"
  then have "next_rowid seq ids \<le> fold max ids seq"
    by (rule fold_max_ge_member)
  then show False by (simp add: next_rowid_def)
qed

lemma insert_category_ids:
  assumes "distinct (map c_id (categories s))"
  shows "distinct (map c_id (categories (snd (insert_category name icon color dflt created s))))"
  using assms next_rowid_fresh [of "seq_categories s" "map c_id (categories s)"]
  by (auto simp: insert_category_def executeSql_def Let_def split: option.splits)

lemma createCategory_keeps_ids_distinct:
  assumes "distinct (map c_id (categories s))"
  shows "distinct (map c_id (categories (snd (createCategory now data s))))"
proof -
  have v: "snd (validateCategory data s) = s"
    by (simp add: validateCategory_def throw_def ret_def)
  show ?thesis
    using assms insert_category_ids [OF assms]
    by (simp add: createCategory_def then_do_alt v ret_def split: sum.splits prod.splits)
qed

end
